theory Spec2Isabelle
  imports Main "HOL-Library.Sublist" "HOL-Library.Char_ord" "HOL-Library.List_Lexorder"
begin

section \<open>Strings and byte slices\<close>

text \<open>
  A Go \<open>string\<close> is a sequence of bytes and \<open>[]byte(s)\<close> copies those bytes, so both
  are lists of 8-bit characters here; \<open>len\<close> is \<open>length\<close> (a count of bytes).
\<close>

type_synonym bytes = string

text \<open>Go's \<open>error\<close> values are their messages; a nil-pointer dereference panics.\<close>

datatype error = Err string | Panic

text \<open>\<open>fmt.Errorf("... %w", err)\<close>: the text of \<open>err\<close>, or \<open>%!w(<nil>)\<close> for a nil error.\<close>

definition errText :: "string option \<Rightarrow> string" where
  "errText e = (case e of None \<Rightarrow> ''%!w(<nil>)'' | Some m \<Rightarrow> m)"

definition byte_val :: "char \<Rightarrow> nat" where
  "byte_val c = of_char c"

definition byte_of :: "nat \<Rightarrow> char" where
  "byte_of n = char_of n"

text \<open>\<open>strings.HasPrefix\<close>, \<open>strings.HasSuffix\<close> and \<open>strings.Contains\<close>.\<close>

definition HasPrefix :: "string \<Rightarrow> string \<Rightarrow> bool" where
  "HasPrefix s p = (length p \<le> length s \<and> take (length p) s = p)"

definition HasSuffix :: "string \<Rightarrow> string \<Rightarrow> bool" where
  "HasSuffix s suf = (length suf \<le> length s \<and> drop (length s - length suf) s = suf)"

fun Contains :: "string \<Rightarrow> string \<Rightarrow> bool" where
  "Contains [] sub = (sub = [])"
| "Contains (c # cs) sub = (HasPrefix (c # cs) sub \<or> Contains cs sub)"

text \<open>\<open>fmt.Sprintf("%d", n)\<close>.\<close>

function fmt_nat :: "nat \<Rightarrow> string" where
  "fmt_nat n = (if n < 10 then [byte_of (48 + n)]
                else fmt_nat (n div 10) @ [byte_of (48 + n mod 10)])"
  by pat_completeness auto
termination
  by (relation "measure id") auto

declare fmt_nat.simps [simp del]

definition fmt_d :: "int \<Rightarrow> string" where
  "fmt_d i = (if i < 0 then CHR ''-'' # fmt_nat (nat (- i)) else fmt_nat (nat i))"

section \<open>Key deriver (package wallet)\<close>

text \<open>
  The secp256k1 library is outside the repository. A parsed public key is identified with
  its compressed DER hex text and a parsed signature with its DER serialisation, so
  \<open>ToDERHex\<close> and \<open>Serialize\<close> are the identity; a private key is its scalar. The
  library's functions are parameters of the model.
\<close>

type_synonym PublicKey = string
type_synonym PrivateKey = nat
type_synonym Signature = bytes

record ec_lib =
  PubKey :: "PrivateKey \<Rightarrow> PublicKey"
  PublicKeyFromString :: "string \<Rightarrow> string + PublicKey"
  ParseSignature :: "bytes \<Rightarrow> string + Signature"

text \<open>\<open>ec.PrivateKeyFromBytes\<close>: the scalar is the big-endian value of the bytes.\<close>

definition PrivateKeyFromBytes :: "ec_lib \<Rightarrow> bytes \<Rightarrow> PrivateKey \<times> PublicKey" where
  "PrivateKeyFromBytes ec b =
     (let d = foldl (\<lambda>a c. 256 * a + byte_val c) 0 b in (d, PubKey ec d))"

type_synonym SecurityLevel = int

record Protocol =
  SecurityLevel :: SecurityLevel
  Protocol :: string

type_synonym CounterpartyType = int

definition CounterpartyUninitialized :: CounterpartyType where
  "CounterpartyUninitialized = 0"

definition CounterpartyTypeAnyone :: CounterpartyType where
  "CounterpartyTypeAnyone = 1"

definition CounterpartyTypeSelf :: CounterpartyType where
  "CounterpartyTypeSelf = 2"

definition CounterpartyTypeOther :: CounterpartyType where
  "CounterpartyTypeOther = 3"

record Counterparty =
  Type :: CounterpartyType
  Counterparty :: "PublicKey option"

record KeyDeriver =
  rootKey :: PrivateKey

definition AnyoneKey :: "ec_lib \<Rightarrow> PrivateKey \<times> PublicKey" where
  "AnyoneKey ec = PrivateKeyFromBytes ec [byte_of 1]"

definition NewKeyDeriver :: "ec_lib \<Rightarrow> PrivateKey option \<Rightarrow> KeyDeriver" where
  "NewKeyDeriver ec privateKey =
     \<lparr>rootKey = (case privateKey of None \<Rightarrow> fst (AnyoneKey ec) | Some k \<Rightarrow> k)\<rparr>"

text \<open>\<open>KeyDeriver.normalizeCounterparty\<close>; the cases are tried in the order of the source.\<close>

definition normalizeCounterparty ::
  "ec_lib \<Rightarrow> KeyDeriver \<Rightarrow> Counterparty \<Rightarrow> error + PublicKey" where
  "normalizeCounterparty ec kd counterparty =
     (if Type counterparty = CounterpartyTypeSelf then Inr (PubKey ec (rootKey kd))
      else if Type counterparty = CounterpartyTypeOther then
        (case Counterparty counterparty of
           None \<Rightarrow> Inl (Err ''counterparty public key required for other'')
         | Some k \<Rightarrow> Inr k)
      else if Type counterparty = CounterpartyTypeAnyone then Inr (snd (AnyoneKey ec))
      else if Type counterparty = CounterpartyUninitialized then
        Inl (Err ''counterparty type uninitialized'')
      else Inl (Err ''invalid counterparty, must be self, other, or anyone''))"

text \<open>
  \<open>regexOnlyLettersNumbersSpaces = ^[a-z0-9 ]+$\<close> (types.go). Without the multi-line
  flag Go's \<open>$\<close> matches at the end of the text only, so the expression matches the
  non-empty strings made of these characters.
\<close>

definition isLowerDigitSpace :: "char \<Rightarrow> bool" where
  "isLowerDigitSpace c =
     ((97 \<le> byte_val c \<and> byte_val c \<le> 122) \<or> (48 \<le> byte_val c \<and> byte_val c \<le> 57)
      \<or> byte_val c = 32)"

definition regexOnlyLettersNumbersSpaces :: "string \<Rightarrow> bool" where
  "regexOnlyLettersNumbersSpaces s = (s \<noteq> [] \<and> list_all isLowerDigitSpace s)"

text \<open>
  \<open>strings.TrimSpace\<close> and \<open>strings.ToLower\<close> work on Unicode code points (the Kelvin
  sign lowercases to the ASCII letter k), so the standard library's pair is a parameter
  of \<open>computeInvoiceNumber\<close>.
\<close>

record strings_lib =
  TrimSpace :: "string \<Rightarrow> string"
  ToLower :: "string \<Rightarrow> string"

definition computeInvoiceNumber ::
  "strings_lib \<Rightarrow> Protocol \<Rightarrow> string \<Rightarrow> error + string" where
  "computeInvoiceNumber L protocol keyID =
     (if SecurityLevel protocol < 0 \<or> SecurityLevel protocol > 2 then
        Inl (Err ''protocol security level must be 0, 1, or 2'')
      else if length keyID > 800 then Inl (Err ''key IDs must be 800 characters or less'')
      else if length keyID < 1 then Inl (Err ''key IDs must be 1 character or more'')
      else
        let protocolName = ToLower L (TrimSpace L (Protocol protocol));
            tooLong =
              (if length protocolName > 400 then
                 (if HasPrefix protocolName ''specific linkage revelation '' then
                    (if length protocolName > 430 then
                       Some (Err ''specific linkage revelation protocol names must be 430 characters or less'')
                     else None)
                  else Some (Err ''protocol names must be 400 characters or less''))
               else None)
        in
        case tooLong of
          Some e \<Rightarrow> Inl e
        | None \<Rightarrow>
            if length protocolName < 5 then
              Inl (Err ''protocol names must be 5 characters or more'')
            else if Contains protocolName ''  '' then
              Inl (Err (''protocol names cannot contain multiple consecutive spaces (''
                        @ [CHR 0x22] @ ''  '' @ [CHR 0x22] @ '')''))
            else if \<not> regexOnlyLettersNumbersSpaces protocolName then
              Inl (Err ''protocol names can only contain letters, numbers and spaces'')
            else if HasSuffix protocolName '' protocol'' then
              Inl (Err (''no need to end your protocol name with '' @ [CHR 0x22]
                        @ '' protocol'' @ [CHR 0x22]))
            else Inr (fmt_d (SecurityLevel protocol) @ ''-'' @ protocolName @ ''-'' @ keyID))"

text \<open>
  The ASCII fragment of the two library functions, for running the model on concrete
  ASCII input: white space is tab, line feed, vertical tab, form feed, carriage return
  and space.
\<close>

definition asciiSpace :: "char \<Rightarrow> bool" where
  "asciiSpace c = (byte_val c \<in> {9, 10, 11, 12, 13, 32})"

definition asciiTrimSpace :: "string \<Rightarrow> string" where
  "asciiTrimSpace s = rev (dropWhile asciiSpace (rev (dropWhile asciiSpace s)))"

definition asciiToLower :: "string \<Rightarrow> string" where
  "asciiToLower s =
     map (\<lambda>c. if 65 \<le> byte_val c \<and> byte_val c \<le> 90 then byte_of (byte_val c + 32) else c) s"

definition asciiStrings :: strings_lib where
  "asciiStrings = \<lparr>TrimSpace = asciiTrimSpace, ToLower = asciiToLower\<rparr>"

text \<open>\<open>DefaultAuthProtocol\<close> (types.go).\<close>

definition DefaultAuthProtocol :: Protocol where
  "DefaultAuthProtocol = \<lparr>SecurityLevel = 2, Protocol = ''auth message signature''\<rparr>"

text \<open>
  The validation rule in the words of the specification (section 4.2, step 3), over the
  normalised protocol name, to be compared with what \<open>computeInvoiceNumber\<close> checks.
\<close>

definition lowercaseLetterDigitOrSpace :: "char \<Rightarrow> bool" where
  "lowercaseLetterDigitOrSpace c =
     ((CHR ''a'' \<le> c \<and> c \<le> CHR ''z'') \<or> (CHR ''0'' \<le> c \<and> c \<le> CHR ''9'') \<or> c = CHR '' '')"

definition invoiceConstraintFails :: "SecurityLevel \<Rightarrow> string \<Rightarrow> string \<Rightarrow> bool" where
  "invoiceConstraintFails level name keyID =
     (level \<notin> {0, 1, 2}
      \<or> length keyID < 1 \<or> length keyID > 800
      \<or> length name < 5
      \<or> length name > (if prefix ''specific linkage revelation '' name then 430 else 400)
      \<or> sublist ''  '' name
      \<or> (\<exists>c \<in> set name. \<not> lowercaseLetterDigitOrSpace c)
      \<or> suffix '' protocol'' name)"

text \<open>A stand-in for the curve library, for running the model on concrete input.\<close>

definition toyEc :: ec_lib where
  "toyEc = \<lparr>PubKey = (\<lambda>d. ''pub'' @ fmt_nat d),
            PublicKeyFromString = (\<lambda>s. if s = [] then Inl ''pubkey string is empty'' else Inr s),
            ParseSignature = (\<lambda>b. if b = [] then Inl ''malformed signature: too short'' else Inr b)\<rparr>"

section \<open>Encodings used by the transport\<close>

text \<open>
  \<open>base64.StdEncoding\<close>. \<open>DecodeString\<close> skips carriage returns and line feeds, reads
  quanta of four characters, accepts padding in the last quantum only and does not check
  the unused bits of a padded quantum. Go returns the bytes decoded before an error
  together with the error, and \<open>buildAuthMessageFromRequest\<close> uses them, so the model
  returns both.
\<close>

definition b64index :: "char \<Rightarrow> nat option" where
  "b64index c =
     (let v = byte_val c in
      if 65 \<le> v \<and> v \<le> 90 then Some (v - 65)
      else if 97 \<le> v \<and> v \<le> 122 then Some (v - 71)
      else if 48 \<le> v \<and> v \<le> 57 then Some (v + 4)
      else if v = 43 then Some 62
      else if v = 47 then Some 63
      else None)"

fun decodeQuanta :: "string \<Rightarrow> bytes \<times> bool" where
  "decodeQuanta [] = ([], True)"
| "decodeQuanta (a # b # c # d # rest) =
     (case (b64index a, b64index b) of
        (Some x, Some y) \<Rightarrow>
          (case b64index c of
             Some z \<Rightarrow>
               (case b64index d of
                  Some w \<Rightarrow>
                    (case decodeQuanta rest of
                       (bs, ok) \<Rightarrow>
                         (byte_of (x * 4 + y div 16) # byte_of ((y mod 16) * 16 + z div 4)
                            # byte_of ((z mod 4) * 64 + w) # bs, ok))
                | None \<Rightarrow>
                    if d = CHR ''='' then
                      ([byte_of (x * 4 + y div 16), byte_of ((y mod 16) * 16 + z div 4)],
                       rest = [])
                    else ([], False))
           | None \<Rightarrow>
               if c = CHR ''='' \<and> d = CHR ''='' then ([byte_of (x * 4 + y div 16)], rest = [])
               else ([], False))
      | _ \<Rightarrow> ([], False))"
| "decodeQuanta _ = ([], False)"

definition DecodeString :: "string \<Rightarrow> bytes \<times> string option" where
  "DecodeString s =
     (case decodeQuanta (filter (\<lambda>c. c \<noteq> CHR 0x0A \<and> c \<noteq> CHR 0x0D) s) of
        (bs, ok) \<Rightarrow> (bs, if ok then None else Some ''illegal base64 data''))"

definition encodeStd :: string where
  "encodeStd = ''ABCDEFGHIJKLMNOPQRSTUVWXYZabcdefghijklmnopqrstuvwxyz0123456789+/''"

fun EncodeToString :: "bytes \<Rightarrow> string" where
  "EncodeToString [] = []"
| "EncodeToString [a] =
     (let x = byte_val a in
      [encodeStd ! (x div 4), encodeStd ! ((x mod 4) * 16), CHR ''='', CHR ''=''])"
| "EncodeToString [a, b] =
     (let x = byte_val a; y = byte_val b in
      [encodeStd ! (x div 4), encodeStd ! ((x mod 4) * 16 + y div 16),
       encodeStd ! ((y mod 16) * 4), CHR ''=''])"
| "EncodeToString (a # b # c # rest) =
     (let x = byte_val a; y = byte_val b; z = byte_val c in
      encodeStd ! (x div 4) # encodeStd ! ((x mod 4) * 16 + y div 16)
        # encodeStd ! ((y mod 16) * 4 + z div 64) # encodeStd ! (z mod 64)
        # EncodeToString rest)"

text \<open>\<open>encoding/hex\<close>: \<open>DecodeString\<close> accepts both cases, \<open>EncodeToString\<close> writes lower case.\<close>

definition fromHexChar :: "char \<Rightarrow> nat option" where
  "fromHexChar c =
     (let v = byte_val c in
      if 48 \<le> v \<and> v \<le> 57 then Some (v - 48)
      else if 97 \<le> v \<and> v \<le> 102 then Some (v - 87)
      else if 65 \<le> v \<and> v \<le> 70 then Some (v - 55)
      else None)"

fun hexDecodeString :: "string \<Rightarrow> string + bytes" where
  "hexDecodeString [] = Inr []"
| "hexDecodeString [p] = Inl (if fromHexChar p = None then ''encoding/hex: invalid byte''
                              else ''encoding/hex: odd length hex string'')"
| "hexDecodeString (p # q # rest) =
     (case (fromHexChar p, fromHexChar q) of
        (Some a, Some b) \<Rightarrow>
          (case hexDecodeString rest of
             Inl e \<Rightarrow> Inl e
           | Inr bs \<Rightarrow> Inr (byte_of (a * 16 + b) # bs))
      | _ \<Rightarrow> Inl ''encoding/hex: invalid byte'')"

definition hextable :: string where
  "hextable = ''0123456789abcdef''"

definition hexEncodeToString :: "bytes \<Rightarrow> string" where
  "hexEncodeToString bs =
     concat (map (\<lambda>c. [hextable ! (byte_val c div 16), hextable ! (byte_val c mod 16)]) bs)"

text \<open>
  Modelled from the spec: \<open>utils.WriteVarIntNum\<close> is not among the sources. Section 4.4:
  little-endian, compact; one byte below 0xFD; 0xFD and a 16-bit value below \<open>2^16\<close>; 0xFE
  and a 32-bit value below \<open>2^32\<close>; 0xFF and a signed 64-bit value for anything larger and
  for the sentinel -1. Every negative number is written as the sentinel is, in two's
  complement. Writing to a \<open>bytes.Buffer\<close> does not fail.
\<close>

fun le_bytes :: "nat \<Rightarrow> nat \<Rightarrow> bytes" where
  "le_bytes 0 v = []"
| "le_bytes (Suc k) v = byte_of (v mod 256) # le_bytes k (v div 256)"

definition WriteVarIntNum :: "int \<Rightarrow> string + bytes" where
  "WriteVarIntNum n =
     Inr (if n < 0 then byte_of 0xFF # le_bytes 8 (nat (n mod 2 ^ 64))
          else if n < 0xFD then [byte_of (nat n)]
          else if n < 2 ^ 16 then byte_of 0xFD # le_bytes 2 (nat n)
          else if n < 2 ^ 32 then byte_of 0xFE # le_bytes 4 (nat n)
          else byte_of 0xFF # le_bytes 8 (nat (n mod 2 ^ 64)))"

section \<open>Payload codec (transport.go)\<close>

text \<open>The loop of \<open>buildResponsePayload\<close> over the included headers.\<close>

fun writeHeaders :: "(string \<times> string) list \<Rightarrow> error + bytes" where
  "writeHeaders [] = Inr []"
| "writeHeaders ((k, v) # hs) =
     (case WriteVarIntNum (int (length k)) of
        Inl _ \<Rightarrow> Inl (Err ''failed to write header key length'')
      | Inr kl \<Rightarrow>
          (case WriteVarIntNum (int (length v)) of
             Inl _ \<Rightarrow> Inl (Err ''failed to write header value length'')
           | Inr vl \<Rightarrow>
               (case writeHeaders hs of
                  Inl e \<Rightarrow> Inl e
                | Inr r \<Rightarrow> Inr (kl @ k @ vl @ v @ r))))"

text \<open>
  \<open>includedHeaders\<close> is the empty slice the source makes: the call that would fill it is
  commented out (\<open>TODO: #14 - Collect and sort headers\<close>), and the function has no
  parameter for the response headers.
\<close>

definition buildResponsePayload :: "string \<Rightarrow> int \<Rightarrow> bytes \<Rightarrow> error + bytes" where
  "buildResponsePayload requestID responseStatus responseBody =
     (case DecodeString requestID of
        (_, Some _) \<Rightarrow> Inl (Err ''failed to decode request ID'')
      | (requestIDBytes, None) \<Rightarrow>
          (case WriteVarIntNum responseStatus of
             Inl _ \<Rightarrow> Inl (Err ''failed to write response status'')
           | Inr status \<Rightarrow>
               let includedHeaders = ([] :: (string \<times> string) list);
                   headersPart =
                     (if length includedHeaders > 0 then
                        (case WriteVarIntNum (int (length includedHeaders)) of
                           Inl _ \<Rightarrow> Inl (Err ''failed to write headers length'')
                         | Inr n \<Rightarrow>
                             (case writeHeaders includedHeaders of
                                Inl e \<Rightarrow> Inl e
                              | Inr hs \<Rightarrow> Inr (n @ hs)))
                      else
                        (case WriteVarIntNum (- 1) of
                           Inl _ \<Rightarrow> Inl (Err ''failed to write -1 as headers length'')
                         | Inr n \<Rightarrow> Inr n));
                   bodyPart =
                     (if length responseBody > 0 then
                        (case WriteVarIntNum (int (length responseBody)) of
                           Inl _ \<Rightarrow> Inl (Err ''failed to write body length'')
                         | Inr n \<Rightarrow> Inr (n @ responseBody))
                      else
                        (case WriteVarIntNum (- 1) of
                           Inl _ \<Rightarrow> Inl (Err ''failed to write -1 as body length'')
                         | Inr n \<Rightarrow> Inr n))
               in
               (case headersPart of
                  Inl e \<Rightarrow> Inl e
                | Inr hs \<Rightarrow>
                    (case bodyPart of
                       Inl e \<Rightarrow> Inl e
                     | Inr b \<Rightarrow> Inr (requestIDBytes @ status @ hs @ b)))))"

text \<open>
  Modelled from the spec: \<open>utils.FilterAndSortHeaders\<close>, named in the commented-out line of
  \<open>buildResponsePayload\<close>, is not among the sources. Section 4.4: only headers whose
  names start with \<open>x-bsv-auth-\<close>, except \<open>x-bsv-auth-signature\<close> and
  \<open>x-bsv-auth-request-id\<close>, plus \<open>content-type\<close> and \<open>authorization\<close>; sorted by
  lowercase name ascending. Header names are held in lower case.
\<close>

definition includedHeader :: "string \<Rightarrow> bool" where
  "includedHeader k =
     ((HasPrefix k ''x-bsv-auth-'' \<and> k \<noteq> ''x-bsv-auth-signature''
         \<and> k \<noteq> ''x-bsv-auth-request-id'')
      \<or> k = ''content-type'' \<or> k = ''authorization'')"

definition FilterAndSortHeaders :: "(string \<times> string) list \<Rightarrow> (string \<times> string) list" where
  "FilterAndSortHeaders hs = sort_key fst (filter (\<lambda>h. includedHeader (fst h)) hs)"

section \<open>Data model (packages transport and sessionmanager)\<close>

text \<open>
  The constants of package \<open>transport\<close>, which is not among the sources: the version
  (section 3 of the specification, and the value the tests send) and the message types
  (section 3; \<open>MessageType\<close> is a string type, the dispatch has a default branch).
\<close>

definition AuthVersion :: string where
  "AuthVersion = ''0.1''"

definition InitialRequest :: string where
  "InitialRequest = ''initialRequest''"

definition InitialResponse :: string where
  "InitialResponse = ''initialResponse''"

definition CertificateRequest :: string where
  "CertificateRequest = ''certificateRequest''"

definition CertificateResponse :: string where
  "CertificateResponse = ''certificateResponse''"

definition General :: string where
  "General = ''general''"

record RequestedCertificateSet =
  Certifiers :: "string list"
  Types :: "(string \<times> string list) list"

text \<open>\<open>wallet.VerifiableCertificate\<close> (types.go); a field value is held as its JSON text.\<close>

record VerifiableCertificate =
  CertType :: string
  Subject :: string
  SerialNumber :: string
  Certifier :: string
  RevocationOutpoint :: string
  Fields :: "(string \<times> string) list"
  CertSignature :: string
  Keyring :: "(string \<times> string) list"
  DecryptedFields :: "(string \<times> string) list option"

record AuthMessage =
  Version :: string
  MessageType :: string
  IdentityKey :: string
  InitialNonce :: string
  Nonce :: "string option"
  YourNonce :: "string option"
  Signature :: "bytes option"
  Payload :: "bytes option"
  RequestedCertificates :: RequestedCertificateSet
  Certificates :: "VerifiableCertificate list option"

text \<open>The zero value of \<open>transport.AuthMessage\<close>.\<close>

definition zeroAuthMessage :: AuthMessage where
  "zeroAuthMessage =
     \<lparr>Version = [], MessageType = [], IdentityKey = [], InitialNonce = [], Nonce = None,
      YourNonce = None, Signature = None, Payload = None,
      RequestedCertificates = \<lparr>Certifiers = [], Types = []\<rparr>, Certificates = None\<rparr>"

record PeerSession =
  IsAuthenticated :: bool
  SessionNonce :: "string option"
  PeerNonce :: "string option"
  PeerIdentityKey :: "string option"
  LastUpdate :: nat

text \<open>
  Modelled from the spec: the session manager (package \<open>sessionmanager\<close>) is not among
  the sources. Section 4.3: \<open>add\<close> inserts under both the \<open>peerIdentityKey\<close> and the
  \<open>sessionNonce\<close> index; \<open>get\<close> accepts either index key and returns nothing if absent;
  \<open>update\<close> replaces the record, preserving both index entries; \<open>remove\<close> removes from
  both indices.
\<close>

record SessionManager =
  byIdentityKey :: "string \<rightharpoonup> PeerSession"
  bySessionNonce :: "string \<rightharpoonup> PeerSession"

definition NewSessionManager :: SessionManager where
  "NewSessionManager = \<lparr>byIdentityKey = Map.empty, bySessionNonce = Map.empty\<rparr>"

definition AddSession :: "SessionManager \<Rightarrow> PeerSession \<Rightarrow> SessionManager" where
  "AddSession m session =
     \<lparr>byIdentityKey =
        (case PeerIdentityKey session of
           None \<Rightarrow> byIdentityKey m
         | Some k \<Rightarrow> (byIdentityKey m)(k \<mapsto> session)),
      bySessionNonce =
        (case SessionNonce session of
           None \<Rightarrow> bySessionNonce m
         | Some n \<Rightarrow> (bySessionNonce m)(n \<mapsto> session))\<rparr>"

definition GetSession :: "SessionManager \<Rightarrow> string \<Rightarrow> PeerSession option" where
  "GetSession m key =
     (case bySessionNonce m key of
        Some session \<Rightarrow> Some session
      | None \<Rightarrow> byIdentityKey m key)"

definition UpdateSession :: "SessionManager \<Rightarrow> PeerSession \<Rightarrow> SessionManager" where
  "UpdateSession m session = AddSession m session"

definition RemoveSession :: "SessionManager \<Rightarrow> string \<Rightarrow> SessionManager" where
  "RemoveSession m identityKey =
     (case byIdentityKey m identityKey of
        None \<Rightarrow> m
      | Some session \<Rightarrow>
          \<lparr>byIdentityKey = (byIdentityKey m)(identityKey := None),
           bySessionNonce =
             (case SessionNonce session of
                None \<Rightarrow> bySessionNonce m
              | Some n \<Rightarrow> (bySessionNonce m)(n := None))\<rparr>)"


section \<open>HTTP requests and response writers (net/http)\<close>

text \<open>
  A request as the transport reads it. Header names are held in lower case (net/http
  treats them without regard to case); \<open>Header.Get\<close> gives the empty string for an absent
  header. The context holds the two values \<open>setupContext\<close> stores.
\<close>

datatype contextKey = CtxIdentityKey | CtxRequestID

record Request =
  Method :: string
  Path :: string
  Header :: "string \<rightharpoonup> string"
  Body :: bytes
  Context :: "contextKey \<rightharpoonup> string"

definition HeaderGet :: "Request \<Rightarrow> string \<Rightarrow> string" where
  "HeaderGet req k = (case Header req k of None \<Rightarrow> [] | Some v \<Rightarrow> v)"

text \<open>
  The server's response writer: the first \<open>WriteHeader\<close> fixes the status, a \<open>Write\<close>
  before any \<open>WriteHeader\<close> fixes it at 200, and the bytes written are what the client
  receives as the body.
\<close>

record ResponseWriter =
  wHeader :: "string \<rightharpoonup> string"
  wroteHeader :: bool
  wStatus :: int
  wBody :: bytes

definition newResponseWriter :: ResponseWriter where
  "newResponseWriter = \<lparr>wHeader = Map.empty, wroteHeader = False, wStatus = 0, wBody = []\<rparr>"

definition writerWriteHeader :: "int \<Rightarrow> ResponseWriter \<Rightarrow> ResponseWriter" where
  "writerWriteHeader code w = (if wroteHeader w then w else w\<lparr>wroteHeader := True, wStatus := code\<rparr>)"

definition writerWrite :: "bytes \<Rightarrow> ResponseWriter \<Rightarrow> ResponseWriter" where
  "writerWrite b w = (let w' = writerWriteHeader 200 w in w'\<lparr>wBody := wBody w' @ b\<rparr>)"

text \<open>
  A byte slice of Go is a window on an array, and whoever holds a slice of an array sees
  what is stored in it later. The memory maps each array to its bytes. An array is one
  allocated for a single value (by a conversion \<open>[]byte(s)\<close> or by \<open>json.Marshal\<close>;
  nothing is stored in it again), a buffer that a handler keeps and uses again, or the
  buffer of a printer of package fmt. The slices met here begin where their array
  begins; \<open>nil\<close> is a slice of length 0 with no array.
\<close>

datatype address = NoArray | Allocated nat | HandlerBuffer nat | PrinterBuffer nat

record Memory =
  arrays :: "address \<Rightarrow> bytes"
  allocations :: nat
  prints :: nat

record Slice =
  array :: address
  len :: nat

definition newMemory :: Memory where
  "newMemory = \<lparr>arrays = (\<lambda>a. []), allocations = 0, prints = 0\<rparr>"

definition nilSlice :: Slice where
  "nilSlice = \<lparr>array = NoArray, len = 0\<rparr>"

text \<open>The bytes a slice holds now.\<close>

definition contents :: "Memory \<Rightarrow> Slice \<Rightarrow> bytes" where
  "contents mem sl = take (len sl) (arrays mem (array sl))"

text \<open>
  Storing bytes at the beginning of an array (\<open>copy(buf, b)\<close>, \<open>append(buf[:0], b...)\<close>
  within the capacity): what the array held beyond them stays.
\<close>

definition store :: "address \<Rightarrow> bytes \<Rightarrow> Memory \<Rightarrow> Memory" where
  "store a b mem = mem\<lparr>arrays := (arrays mem)(a := b @ drop (length b) (arrays mem a))\<rparr>"

text \<open>A new array for the bytes \<open>b\<close>, and the slice of all of it.\<close>

definition alloc :: "bytes \<Rightarrow> Memory \<Rightarrow> Slice \<times> Memory" where
  "alloc b mem =
     (\<lparr>array = Allocated (allocations mem), len = length b\<rparr>,
      mem\<lparr>arrays := (arrays mem)(Allocated (allocations mem) := b),
          allocations := Suc (allocations mem)\<rparr>)"

text \<open>
  Package fmt prints into the buffer of a printer that it takes from a pool
  (\<open>sync.Pool\<close>) and puts back when it is done, so a later print may go into the buffer
  of an earlier one, from its beginning. Which buffer the n-th print fills (the printer
  the pool hands out, or a new array when the text outgrows the buffer) is the
  runtime's choice, the parameter \<open>pool\<close>. The result is the slice of the buffer that
  holds the text: \<open>fmt.Fprint\<close> passes it to \<open>Write\<close>.
\<close>

definition fmtPrint :: "(nat \<Rightarrow> nat) \<Rightarrow> string \<Rightarrow> Memory \<Rightarrow> Slice \<times> Memory" where
  "fmtPrint pool s mem =
     (\<lparr>array = PrinterBuffer (pool (prints mem)), len = length s\<rparr>,
      (store (PrinterBuffer (pool (prints mem))) s mem)\<lparr>prints := Suc (prints mem)\<rparr>)"

text \<open>
  \<open>ResponseRecorder\<close> (package auth): the embedded writer, the status and the body, which
  is a slice. The memory that the slice points into is carried along with the recorder:
  it is not a field of the Go struct.
\<close>

record ResponseRecorder =
  ResponseWriter :: ResponseWriter
  statusCode :: int
  body :: Slice
  memory :: Memory

text \<open>The bytes that the recorder's body holds now.\<close>

definition recorded :: "ResponseRecorder \<Rightarrow> bytes" where
  "recorded r = contents (memory r) (body r)"

definition WriteHeader :: "int \<Rightarrow> ResponseRecorder \<Rightarrow> ResponseRecorder" where
  "WriteHeader code r =
     r\<lparr>statusCode := code, ResponseWriter := writerWriteHeader code (ResponseWriter r)\<rparr>"

text \<open>\<open>ResponseRecorder.Write\<close>: \<open>r.body = b\<close> keeps the caller's slice, it copies no byte.\<close>

definition Write :: "Slice \<Rightarrow> ResponseRecorder \<Rightarrow> ResponseRecorder" where
  "Write b r = r\<lparr>body := b\<rparr>"

text \<open>
  \<open>w.Write(b)\<close> where \<open>b\<close> is a value in an array of its own, \<open>fmt.Fprint(w, s)\<close>, and what
  \<open>fmt.Sprintf\<close> and \<open>fmt.Errorf\<close> do to the memory while they build the text \<open>s\<close>. The
  prints of the transport are steps on the memory from the moment a handler or the
  certificate callback may have written: the recorder of the middleware holds no slice
  before, so that no print made until then can be seen through it.
\<close>

definition WriteAllocated :: "bytes \<Rightarrow> ResponseRecorder \<Rightarrow> ResponseRecorder" where
  "WriteAllocated b r =
     (case alloc b (memory r) of (sl, mem) \<Rightarrow> Write sl (r\<lparr>memory := mem\<rparr>))"

definition Fprint :: "(nat \<Rightarrow> nat) \<Rightarrow> string \<Rightarrow> ResponseRecorder \<Rightarrow> ResponseRecorder" where
  "Fprint pool s r =
     (case fmtPrint pool s (memory r) of (sl, mem) \<Rightarrow> Write sl (r\<lparr>memory := mem\<rparr>))"

definition Sprintf :: "(nat \<Rightarrow> nat) \<Rightarrow> string \<Rightarrow> ResponseRecorder \<Rightarrow> ResponseRecorder" where
  "Sprintf pool s r = r\<lparr>memory := snd (fmtPrint pool s (memory r))\<rparr>"

text \<open>\<open>w.Header().Set(k, v)\<close>: the recorder's header map is the embedded writer's.\<close>

definition HeaderSet :: "string \<Rightarrow> string \<Rightarrow> ResponseRecorder \<Rightarrow> ResponseRecorder" where
  "HeaderSet k v r =
     r\<lparr>ResponseWriter := (ResponseWriter r)\<lparr>wHeader := (wHeader (ResponseWriter r))(k \<mapsto> v)\<rparr>\<rparr>"

text \<open>
  \<open>http.Error(w, msg, code)\<close>: it sets the plain-text headers, calls \<open>WriteHeader\<close> and
  prints the message and a line feed with \<open>fmt.Fprintln\<close>.
\<close>

definition httpError :: "(nat \<Rightarrow> nat) \<Rightarrow> ResponseRecorder \<Rightarrow> string \<Rightarrow> int \<Rightarrow> ResponseRecorder" where
  "httpError pool r msg code =
     Fprint pool (msg @ [CHR 0x0A])
       (WriteHeader code
          (HeaderSet ''x-content-type-options'' ''nosniff''
             (HeaderSet ''content-type'' ''text/plain; charset=utf-8'' r)))"

definition StatusOK :: int where
  "StatusOK = 200"

definition StatusUnauthorized :: int where
  "StatusUnauthorized = 401"

definition StatusInternalServerError :: int where
  "StatusInternalServerError = 500"

text \<open>
  \<open>&ResponseRecorder{ResponseWriter: w, statusCode: http.StatusOK}\<close>: the body is \<open>nil\<close>.
  Nothing has been stored yet in the buffers that the handler will use.
\<close>

definition newRecorder :: "ResponseWriter \<Rightarrow> ResponseRecorder" where
  "newRecorder w =
     \<lparr>ResponseWriter = w, statusCode = StatusOK, body = nilSlice, memory = newMemory\<rparr>"

text \<open>
  What a handler (or the certificate callback) does with the response writer it is
  given, a sequence of steps: \<open>w.Header().Set(k, v)\<close>, \<open>w.WriteHeader(code)\<close>,
  \<open>w.Write([]byte(s))\<close> as the handlers of the examples do, \<open>fmt.Fprint(w, s)\<close>,
  \<open>buf = append(buf[:0], b...); w.Write(buf)\<close> with a buffer \<open>buf\<close> of its own that is
  large enough, and \<open>copy(buf, b)\<close>, which uses such a buffer again without writing.
\<close>

datatype handlerStep =
    SetHeader string string
  | CallWriteHeader int
  | CallWrite bytes
  | CallFprint string
  | CallWriteBuffer nat bytes
  | Reuse nat bytes

fun applyCall :: "(nat \<Rightarrow> nat) \<Rightarrow> ResponseRecorder \<Rightarrow> handlerStep \<Rightarrow> ResponseRecorder" where
  "applyCall pool r (SetHeader k v) = HeaderSet k v r"
| "applyCall pool r (CallWriteHeader code) = WriteHeader code r"
| "applyCall pool r (CallWrite b) = WriteAllocated b r"
| "applyCall pool r (CallFprint s) = Fprint pool s r"
| "applyCall pool r (CallWriteBuffer n b) =
     Write \<lparr>array = HandlerBuffer n, len = length b\<rparr>
       (r\<lparr>memory := store (HandlerBuffer n) b (memory r)\<rparr>)"
| "applyCall pool r (Reuse n b) = r\<lparr>memory := store (HandlerBuffer n) b (memory r)\<rparr>"

definition applyCalls ::
  "(nat \<Rightarrow> nat) \<Rightarrow> handlerStep list \<Rightarrow> ResponseRecorder \<Rightarrow> ResponseRecorder" where
  "applyCalls pool cs r = foldl (applyCall pool) r cs"

section \<open>Wallet interface and the transport's surroundings\<close>

record EncryptionArgs =
  ProtocolID :: Protocol
  KeyID :: string
  EncCounterparty :: Counterparty

record CreateSignatureArgs = EncryptionArgs +
  Data :: bytes

record VerifySignatureArgs = EncryptionArgs +
  DataToVerify :: bytes
  SignatureToVerify :: Signature

text \<open>
  What the transport calls but the sources do not hold: the methods of
  \<open>wallet.WalletInterface\<close> over a wallet state \<open>'w\<close> (each returns its result or an
  error message, and the wallet's next state), the curve library,
  \<open>utils.WriteRequestData\<close>, encoding/json for the three types the transport
  encodes or decodes, and the pool of printers of package fmt (which buffer the n-th
  print fills). \<open>GetPublicKey\<close> is the call with \<open>IdentityKey: true\<close>.
\<close>

record 'w Externals =
  CreateNonce :: "'w \<Rightarrow> (string + string) \<times> 'w"
  VerifyNonce :: "'w \<Rightarrow> string \<Rightarrow> (string + bool) \<times> 'w"
  CreateSignature :: "'w \<Rightarrow> CreateSignatureArgs \<Rightarrow> (string + Signature) \<times> 'w"
  VerifySignature :: "'w \<Rightarrow> VerifySignatureArgs \<Rightarrow> (string + bool) \<times> 'w"
  GetPublicKey :: "'w \<Rightarrow> (string + PublicKey) \<times> 'w"
  ecLib :: ec_lib
  WriteRequestData :: "Request \<Rightarrow> string + bytes"
  DecodeAuthMessage :: "bytes \<Rightarrow> AuthMessage option"
  MarshalAuthMessage :: "AuthMessage \<Rightarrow> string + bytes"
  MarshalCertificates :: "VerifiableCertificate list \<Rightarrow> string + bytes"
  fmtPool :: "nat \<Rightarrow> nat"

text \<open>
  The calls the transport makes on the wallet and on the certificate callback, with
  their results, in order.
\<close>

datatype call =
    CalledCreateNonce "string + string"
  | CalledVerifyNonce string "string + bool"
  | CalledCreateSignature CreateSignatureArgs "string + Signature"
  | CalledVerifySignature VerifySignatureArgs "string + bool"
  | CalledGetPublicKey "string + PublicKey"
  | CalledOnCertificatesReceived string "VerifiableCertificate list" bool

text \<open>
  The mutable world of a transport: the wallet, the session manager, the calls made so
  far and the clock that \<open>time.Now\<close> reads.
\<close>

record 'w World =
  wallet :: 'w
  sessionManager :: SessionManager
  calls :: "call list"
  now :: nat

text \<open>
  The fields of \<open>Transport\<close> that are configuration. The callback is given the sender's
  key, the certificates and the request; it answers whether it called \<open>next\<close> and what
  it wrote to the response.
\<close>

record Transport =
  allowUnauthenticated :: bool
  certificateRequirements :: "RequestedCertificateSet option"
  onCertificatesReceived ::
    "(string \<Rightarrow> VerifiableCertificate list \<Rightarrow> Request \<Rightarrow> bool \<times> handlerStep list) option"

definition walletCreateNonce :: "'w Externals \<Rightarrow> 'w World \<Rightarrow> (string + string) \<times> 'w World" where
  "walletCreateNonce E s =
     (case CreateNonce E (wallet s) of
        (r, w) \<Rightarrow> (r, s\<lparr>wallet := w, calls := calls s @ [CalledCreateNonce r]\<rparr>))"

definition walletVerifyNonce ::
  "'w Externals \<Rightarrow> string \<Rightarrow> 'w World \<Rightarrow> (string + bool) \<times> 'w World" where
  "walletVerifyNonce E n s =
     (case VerifyNonce E (wallet s) n of
        (r, w) \<Rightarrow> (r, s\<lparr>wallet := w, calls := calls s @ [CalledVerifyNonce n r]\<rparr>))"

definition walletCreateSignature ::
  "'w Externals \<Rightarrow> CreateSignatureArgs \<Rightarrow> 'w World \<Rightarrow> (string + Signature) \<times> 'w World" where
  "walletCreateSignature E args s =
     (case CreateSignature E (wallet s) args of
        (r, w) \<Rightarrow> (r, s\<lparr>wallet := w, calls := calls s @ [CalledCreateSignature args r]\<rparr>))"

definition walletVerifySignature ::
  "'w Externals \<Rightarrow> VerifySignatureArgs \<Rightarrow> 'w World \<Rightarrow> (string + bool) \<times> 'w World" where
  "walletVerifySignature E args s =
     (case VerifySignature E (wallet s) args of
        (r, w) \<Rightarrow> (r, s\<lparr>wallet := w, calls := calls s @ [CalledVerifySignature args r]\<rparr>))"

definition walletGetPublicKey ::
  "'w Externals \<Rightarrow> 'w World \<Rightarrow> (string + PublicKey) \<times> 'w World" where
  "walletGetPublicKey E s =
     (case GetPublicKey E (wallet s) of
        (r, w) \<Rightarrow> (r, s\<lparr>wallet := w, calls := calls s @ [CalledGetPublicKey r]\<rparr>))"

section \<open>Auth transport (transport.go)\<close>

definition authHeaderPrefix :: string where
  "authHeaderPrefix = ''x-bsv-auth-''"

definition requestIDHeader :: string where
  "requestIDHeader = authHeaderPrefix @ ''request-id''"

definition versionHeader :: string where
  "versionHeader = authHeaderPrefix @ ''version''"

definition identityKeyHeader :: string where
  "identityKeyHeader = authHeaderPrefix @ ''identity-key''"

definition nonceHeader :: string where
  "nonceHeader = authHeaderPrefix @ ''nonce''"

definition yourNonceHeader :: string where
  "yourNonceHeader = authHeaderPrefix @ ''your-nonce''"

definition signatureHeader :: string where
  "signatureHeader = authHeaderPrefix @ ''signature''"

definition messageTypeHeader :: string where
  "messageTypeHeader = authHeaderPrefix @ ''message-type''"

definition validateBase64 :: "string \<Rightarrow> string option" where
  "validateBase64 input =
     (case DecodeString input of
        (_, Some e) \<Rightarrow> Some (''invalid base64 string: '' @ e)
      | (_, None) \<Rightarrow> None)"

definition isHex :: "string \<Rightarrow> bool" where
  "isHex s = (if length s mod 2 \<noteq> 0 then False else \<not> isl (hexDecodeString s))"

text \<open>\<open>checkHeaders\<close> (lines 686 to 719), with \<open>validateBase64\<close> and \<open>isHex\<close> above.\<close>

definition checkHeaders :: "Request \<Rightarrow> string option" where
  "checkHeaders req =
     (if HeaderGet req versionHeader = [] then Some ''missing version header''
      else if HeaderGet req identityKeyHeader = [] then Some ''missing identity key header''
      else if HeaderGet req nonceHeader = [] then Some ''missing nonce header''
      else if validateBase64 (HeaderGet req nonceHeader) \<noteq> None then Some ''invalid nonce header''
      else if HeaderGet req yourNonceHeader = [] then Some ''missing your nonce header''
      else if validateBase64 (HeaderGet req yourNonceHeader) \<noteq> None then
        Some ''invalid your nonce header''
      else if HeaderGet req signatureHeader = [] then Some ''missing signature header''
      else if \<not> isHex (HeaderGet req signatureHeader) then Some ''invalid signature header''
      else None)"

definition setupContext :: "Request \<Rightarrow> AuthMessage \<Rightarrow> string \<Rightarrow> Request" where
  "setupContext req requestData requestID =
     req\<lparr>Context := (Context req)(CtxIdentityKey \<mapsto> IdentityKey requestData,
                                    CtxRequestID \<mapsto> requestID)\<rparr>"

definition getValuesFromContext :: "Request \<Rightarrow> string + string \<times> string" where
  "getValuesFromContext req =
     (case Context req CtxIdentityKey of
        None \<Rightarrow> Inl ''identity key not found in context''
      | Some identityKey \<Rightarrow>
          (case Context req CtxRequestID of
             None \<Rightarrow> Inl ''request ID not found in context''
           | Some requestID \<Rightarrow> Inr (identityKey, requestID)))"

definition buildAuthMessageFromRequest :: "'w Externals \<Rightarrow> Request \<Rightarrow> string + AuthMessage" where
  "buildAuthMessageFromRequest E req =
     (let requestNonce = HeaderGet req requestIDHeader;
          requestNonceBytes = (if requestNonce \<noteq> [] then fst (DecodeString requestNonce) else [])
      in
      case WriteRequestData E req of
        Inl _ \<Rightarrow> Inl ''failed to write request data''
      | Inr requestData \<Rightarrow>
          let authMessage =
                zeroAuthMessage
                  \<lparr>MessageType := ''general'',
                   Version := HeaderGet req versionHeader,
                   IdentityKey := HeaderGet req identityKeyHeader,
                   Payload := Some (requestNonceBytes @ requestData),
                   Nonce := (if HeaderGet req nonceHeader \<noteq> [] then Some (HeaderGet req nonceHeader)
                             else None),
                   YourNonce := (if HeaderGet req yourNonceHeader \<noteq> []
                                 then Some (HeaderGet req yourNonceHeader) else None)\<rparr>
          in
          if HeaderGet req signatureHeader \<noteq> [] then
            (case hexDecodeString (HeaderGet req signatureHeader) of
               Inl _ \<Rightarrow> Inl ''error decoding signature''
             | Inr decodedBytes \<Rightarrow> Inr (authMessage\<lparr>Signature := Some decodedBytes\<rparr>))
          else Inr authMessage)"

definition setupHeaders :: "ResponseRecorder \<Rightarrow> AuthMessage \<Rightarrow> string \<Rightarrow> ResponseRecorder" where
  "setupHeaders w response requestID =
     (let w1 = HeaderSet identityKeyHeader (IdentityKey response)
                 (HeaderSet messageTypeHeader (MessageType response)
                    (HeaderSet versionHeader (Version response) w));
          w2 = (if MessageType response = General then HeaderSet requestIDHeader requestID w1
                else w1);
          w3 = (case Nonce response of None \<Rightarrow> w2 | Some n \<Rightarrow> HeaderSet nonceHeader n w2);
          w4 = (case YourNonce response of None \<Rightarrow> w3 | Some n \<Rightarrow> HeaderSet yourNonceHeader n w3)
      in
      case Signature response of
        None \<Rightarrow> w4
      | Some sig \<Rightarrow> HeaderSet signatureHeader (hexEncodeToString sig) w4)"

definition setupContent :: "'w Externals \<Rightarrow> ResponseRecorder \<Rightarrow> AuthMessage \<Rightarrow> ResponseRecorder" where
  "setupContent E w response =
     (let w1 = HeaderSet ''content-type'' ''application/json'' w in
      case MarshalAuthMessage E response of
        Inl _ \<Rightarrow> httpError (fmtPool E) w1 ''failed to marshal response'' StatusInternalServerError
      | Inr b \<Rightarrow> WriteAllocated b w1)"

text \<open>\<open>Transport.createSignature\<close> and \<open>createNonGeneralAuthSignature\<close> (lines 458 to 495).\<close>

definition createSignature ::
  "'w Externals \<Rightarrow> string \<Rightarrow> string \<Rightarrow> bytes \<Rightarrow> 'w World \<Rightarrow> (string + bytes) \<times> 'w World" where
  "createSignature E identityKey keyID dat s =
     (case PublicKeyFromString (ecLib E) identityKey of
        Inl e \<Rightarrow> (Inl (''failed to parse identity key, '' @ e), s)
      | Inr key \<Rightarrow>
          (case walletCreateSignature E
                  \<lparr>ProtocolID = DefaultAuthProtocol, KeyID = keyID,
                   EncCounterparty = \<lparr>Type = CounterpartyTypeOther, Counterparty = Some key\<rparr>,
                   Data = dat\<rparr> s of
             (Inl e, s1) \<Rightarrow> (Inl (''failed to create signature, '' @ e), s1)
           | (Inr signature, s1) \<Rightarrow> (Inr signature, s1)))"

definition createNonGeneralAuthSignature ::
  "'w Externals \<Rightarrow> string \<Rightarrow> string \<Rightarrow> string \<Rightarrow> 'w World \<Rightarrow> (string + bytes) \<times> 'w World" where
  "createNonGeneralAuthSignature E initialNonce sessionNonce identityKey s =
     (let combined = initialNonce @ sessionNonce;
          base64Data = EncodeToString combined
      in createSignature E identityKey combined base64Data s)"

text \<open>\<open>Transport.handleInitialRequest\<close> (transport.go, lines 223 to 270).\<close>

definition handleInitialRequest ::
  "'w Externals \<Rightarrow> Transport \<Rightarrow> AuthMessage \<Rightarrow> 'w World \<Rightarrow> (error + AuthMessage) \<times> 'w World" where
  "handleInitialRequest E t msg s =
     (if IdentityKey msg = [] \<and> InitialNonce msg = [] then
        (Inl (Err ''missing required fields in initial request''), s)
      else
        case walletCreateNonce E s of
          (Inl e, s1) \<Rightarrow> (Inl (Err (''failed to create session nonce, '' @ e)), s1)
        | (Inr sessionNonce, s1) \<Rightarrow>
            let authenticated = (if certificateRequirements t = None then True else False);
                session = \<lparr>IsAuthenticated = authenticated,
                           SessionNonce = Some sessionNonce,
                           PeerNonce = Some (InitialNonce msg),
                           PeerIdentityKey = Some (IdentityKey msg),
                           LastUpdate = now s1\<rparr>;
                s2 = s1\<lparr>sessionManager := AddSession (sessionManager s1) session\<rparr>
            in
            case createNonGeneralAuthSignature E (InitialNonce msg) sessionNonce (IdentityKey msg) s2 of
              (Inl e, s3) \<Rightarrow> (Inl (Err (''failed to create signature, '' @ e)), s3)
            | (Inr signature, s3) \<Rightarrow>
                (case walletGetPublicKey E s3 of
                   (Inl e, s4) \<Rightarrow> (Inl (Err (''failed to retrieve identity key, '' @ e)), s4)
                 | (Inr identityKey, s4) \<Rightarrow>
                     let initialResponseMessage =
                           zeroAuthMessage
                             \<lparr>Version := AuthVersion,
                              MessageType := ''initialResponse'',
                              IdentityKey := identityKey,
                              InitialNonce := sessionNonce,
                              YourNonce := Some (InitialNonce msg),
                              Signature := Some signature\<rparr>
                     in
                     (Inr (case certificateRequirements t of
                             None \<Rightarrow> initialResponseMessage
                           | Some reqs \<Rightarrow> initialResponseMessage\<lparr>RequestedCertificates := reqs\<rparr>),
                      s4)))"

text \<open>
  \<open>handleCertificateResponse\<close>, from the callback on (lines 329 to 383): the session
  found, its peer key and the certificates are those of the first half. The callback
  may have written to the response, so from here on every \<open>fmt.Errorf\<close> is a step on
  the memory (also the one inside \<open>createSignature\<close>); until something is written the
  recorder holds no slice, and the formatting done before is left out.
\<close>

definition acceptCertificates ::
  "'w Externals \<Rightarrow> Transport \<Rightarrow> AuthMessage \<Rightarrow> Request \<Rightarrow> ResponseRecorder \<Rightarrow> PeerSession
     \<Rightarrow> string \<Rightarrow> VerifiableCertificate list \<Rightarrow> 'w World
     \<Rightarrow> (error + AuthMessage option) \<times> ResponseRecorder \<times> 'w World" where
  "acceptCertificates E t msg req res session peerIdentityKey certs s =
     (let (authenticationDone, sessionAuthenticated, res1, s1) =
            (case onCertificatesReceived t of
               Some callback \<Rightarrow>
                 (case callback peerIdentityKey certs req of
                    (calledNext, written) \<Rightarrow>
                      (calledNext, calledNext, applyCalls (fmtPool E) written res,
                       s\<lparr>calls := calls s
                            @ [CalledOnCertificatesReceived peerIdentityKey certs calledNext]\<rparr>))
             | None \<Rightarrow> (False, True, res, s))
      in
      if onCertificatesReceived t \<noteq> None \<and> \<not> authenticationDone then (Inr None, res1, s1)
      else
        let session1 = (if sessionAuthenticated
                        then session\<lparr>IsAuthenticated := True, LastUpdate := now s1\<rparr>
                        else session);
            s2 = (if sessionAuthenticated
                  then s1\<lparr>sessionManager := UpdateSession (sessionManager s1) session1\<rparr>
                  else s1)
        in
        case walletCreateNonce E s2 of
          (Inl e, s3) \<Rightarrow>
            (Inl (Err ''failed to create nonce''),
             Sprintf (fmtPool E) ''failed to create nonce'' res1, s3)
        | (Inr nonce, s3) \<Rightarrow>
            (case SessionNonce session1 of
               None \<Rightarrow> (Inl Panic, res1, s3)
             | Some sessionNonce \<Rightarrow>
                 (case createNonGeneralAuthSignature E (InitialNonce msg) sessionNonce
                         (IdentityKey msg) s3 of
                    (Inl e, s4) \<Rightarrow>
                      (Inl (Err (''failed to create signature, '' @ e)),
                       Sprintf (fmtPool E) (''failed to create signature, '' @ e)
                         (Sprintf (fmtPool E) e res1),
                       s4)
                  | (Inr signature, s4) \<Rightarrow>
                      (case walletGetPublicKey E s4 of
                         (Inl e, s5) \<Rightarrow>
                           (Inl (Err (''failed to retrieve identity key, '' @ e)),
                            Sprintf (fmtPool E) (''failed to retrieve identity key, '' @ e) res1,
                            s5)
                       | (Inr identityKey, s5) \<Rightarrow>
                           (Inr (Some (zeroAuthMessage
                                         \<lparr>Version := AuthVersion,
                                          MessageType := CertificateResponse,
                                          IdentityKey := identityKey,
                                          Nonce := Some nonce,
                                          YourNonce := PeerNonce session1,
                                          Signature := Some signature\<rparr>)),
                            res1, s5)))))"

text \<open>\<open>Transport.handleCertificateResponse\<close>, up to the verification of the signature (lines 272 to 327).\<close>

definition handleCertificateResponse ::
  "'w Externals \<Rightarrow> Transport \<Rightarrow> AuthMessage \<Rightarrow> Request \<Rightarrow> ResponseRecorder \<Rightarrow> 'w World
     \<Rightarrow> (error + AuthMessage option) \<times> ResponseRecorder \<times> 'w World" where
  "handleCertificateResponse E t msg req res s =
     (case YourNonce msg of
        None \<Rightarrow> (Inl Panic, res, s)
      | Some yourNonce \<Rightarrow>
          (case walletVerifyNonce E yourNonce s of
             (Inl e, s1) \<Rightarrow> (Inl (Err (''unable to verify nonce, '' @ e)), res, s1)
           | (Inr valid, s1) \<Rightarrow>
               if \<not> valid then (Inl (Err (''unable to verify nonce, '' @ errText None)), res, s1)
               else
                 (case Certificates msg of
                    None \<Rightarrow> (Inl (Err ''failed to retrieve certificates''), res, s1)
                  | Some certs \<Rightarrow>
                      (case Nonce msg of
                         None \<Rightarrow> (Inl (Err ''failed to retrieve nonce''), res, s1)
                       | Some nonce \<Rightarrow>
                           (case MarshalCertificates E certs of
                              Inl e \<Rightarrow>
                                (Inl (Err (''failed to decode certificates, '' @ e)), res, s1)
                            | Inr payload \<Rightarrow>
                                (case GetSession (sessionManager s1) (IdentityKey msg) of
                                   None \<Rightarrow>
                                     (Inl (Err ''no session found for identity key''), res, s1)
                                 | Some session \<Rightarrow>
                                     (case PeerIdentityKey session of
                                        None \<Rightarrow>
                                          (Inl (Err ''failed to retrieve peer identity key''),
                                           res, s1)
                                      | Some peerIdentityKey \<Rightarrow>
                                          (case Signature msg of
                                             None \<Rightarrow> (Inl Panic, res, s1)
                                           | Some sigBytes \<Rightarrow>
     (case ParseSignature (ecLib E) sigBytes of
        Inl e \<Rightarrow> (Inl (Err (''failed to parse signature, '' @ e)), res, s1)
      | Inr signatureToVerify \<Rightarrow>
          (case PublicKeyFromString (ecLib E) peerIdentityKey of
             Inl e \<Rightarrow> (Inl (Err (''failed to parse identity key, '' @ e)), res, s1)
           | Inr key \<Rightarrow>
               (case walletVerifySignature E
                       \<lparr>ProtocolID = DefaultAuthProtocol,
                        KeyID = nonce @ '' '' @ yourNonce,
                        EncCounterparty =
                          \<lparr>Type = CounterpartyTypeOther, Counterparty = Some key\<rparr>,
                        DataToVerify = payload,
                        SignatureToVerify = signatureToVerify\<rparr> s1 of
                  (Inl e, s2) \<Rightarrow> (Inl (Err (''unable to verify signature, '' @ e)), res, s2)
                | (Inr valid, s2) \<Rightarrow>
                    if \<not> valid then
                      (Inl (Err (''unable to verify signature, '' @ errText None)), res, s2)
                    else acceptCertificates E t msg req res session peerIdentityKey certs s2)))))))))))"

text \<open>\<open>Transport.handleGeneralRequest\<close> (lines 386 to 456).\<close>

definition handleGeneralRequest ::
  "'w Externals \<Rightarrow> Transport \<Rightarrow> AuthMessage \<Rightarrow> 'w World \<Rightarrow> (error + AuthMessage) \<times> 'w World" where
  "handleGeneralRequest E t msg s =
     (case YourNonce msg of
        None \<Rightarrow> (Inl Panic, s)
      | Some yourNonce \<Rightarrow>
          (case walletVerifyNonce E yourNonce s of
             (Inl e, s1) \<Rightarrow> (Inl (Err (''unable to verify nonce, '' @ e)), s1)
           | (Inr valid, s1) \<Rightarrow>
               if \<not> valid then (Inl (Err (''unable to verify nonce, '' @ errText None)), s1)
               else
                 (case GetSession (sessionManager s1) yourNonce of
                    None \<Rightarrow> (Inl (Err ''session not found''), s1)
                  | Some session \<Rightarrow>
                      if \<not> IsAuthenticated session \<and> \<not> allowUnauthenticated t then
                        (if certificateRequirements t \<noteq> None
                         then (Inl (Err ''no certificates provided''), s1)
                         else (Inl (Err ''session not authenticated''), s1))
                      else
                        (case Signature msg of
                           None \<Rightarrow> (Inl Panic, s1)
                         | Some sigBytes \<Rightarrow>
                             (case ParseSignature (ecLib E) sigBytes of
                                Inl e \<Rightarrow> (Inl (Err (''failed to parse signature, '' @ e)), s1)
                              | Inr signature \<Rightarrow>
                                  (case PeerIdentityKey session of
                                     None \<Rightarrow> (Inl Panic, s1)
                                   | Some peerIdentityKey \<Rightarrow>
     (case PublicKeyFromString (ecLib E) peerIdentityKey of
        Inl e \<Rightarrow> (Inl (Err (''failed to parse identity key, '' @ e)), s1)
      | Inr key \<Rightarrow>
          (case Nonce msg of
             None \<Rightarrow> (Inl Panic, s1)
           | Some nonce \<Rightarrow>
               (case Payload msg of
                  None \<Rightarrow> (Inl Panic, s1)
                | Some payload \<Rightarrow>
                    (case walletVerifySignature E
                            \<lparr>ProtocolID = DefaultAuthProtocol,
                             KeyID = nonce @ '' '' @ yourNonce,
                             EncCounterparty =
                               \<lparr>Type = CounterpartyTypeOther, Counterparty = Some key\<rparr>,
                             DataToVerify = payload,
                             SignatureToVerify = signature\<rparr> s1 of
                       (Inl e, s2) \<Rightarrow> (Inl (Err (''unable to verify signature, '' @ e)), s2)
                     | (Inr valid, s2) \<Rightarrow>
                         if \<not> valid then
                           (Inl (Err (''unable to verify signature, '' @ errText None)), s2)
                         else
                           let s3 = s2\<lparr>sessionManager :=
                                        UpdateSession (sessionManager s2)
                                          (session\<lparr>LastUpdate := now s2\<rparr>)\<rparr>
                           in
                           (case walletCreateNonce E s3 of
                              (Inl e, s4) \<Rightarrow> (Inl (Err (''failed to create nonce, '' @ e)), s4)
                            | (Inr nonce', s4) \<Rightarrow>
                                (case walletGetPublicKey E s4 of
                                   (Inl e, s5) \<Rightarrow>
                                     (Inl (Err (''failed to retrieve identity key, '' @ e)), s5)
                                 | (Inr identityKey, s5) \<Rightarrow>
                                     (Inr (zeroAuthMessage
                                             \<lparr>Version := AuthVersion,
                                              MessageType := ''general'',
                                              IdentityKey := identityKey,
                                              Nonce := Some nonce',
                                              YourNonce := PeerNonce session\<rparr>),
                                      s5)))))))))))))"

text \<open>\<open>Transport.handleIncomingMessage\<close> (lines 198 to 221).\<close>

definition handleIncomingMessage ::
  "'w Externals \<Rightarrow> Transport \<Rightarrow> AuthMessage \<Rightarrow> Request \<Rightarrow> ResponseRecorder \<Rightarrow> 'w World
     \<Rightarrow> (error + AuthMessage option) \<times> ResponseRecorder \<times> 'w World" where
  "handleIncomingMessage E t msg req res s =
     (if Version msg \<noteq> AuthVersion then (Inl (Err ''unsupported version''), res, s)
      else if MessageType msg = InitialRequest then
        (case handleInitialRequest E t msg s of
           (Inl e, s1) \<Rightarrow> (Inl e, res, s1)
         | (Inr response, s1) \<Rightarrow> (Inr (Some response), res, s1))
      else if MessageType msg = CertificateResponse then
        handleCertificateResponse E t msg req res s
      else if MessageType msg = InitialResponse \<or> MessageType msg = CertificateRequest then
        (Inl (Err ''not implemented''), res, s)
      else if MessageType msg = General then
        (case handleGeneralRequest E t msg s of
           (Inl e, s1) \<Rightarrow> (Inl e, res, s1)
         | (Inr response, s1) \<Rightarrow> (Inr (Some response), res, s1))
      else (Inl (Err ''unsupported message type''), res, s))"

text \<open>\<open>Transport.HandleNonGeneralRequest\<close> (lines 88 to 116).\<close>

definition HandleNonGeneralRequest ::
  "'w Externals \<Rightarrow> Transport \<Rightarrow> Request \<Rightarrow> ResponseRecorder \<Rightarrow> 'w World
     \<Rightarrow> (error + unit) \<times> ResponseRecorder \<times> 'w World" where
  "HandleNonGeneralRequest E t req res s =
     (case DecodeAuthMessage E (Body req) of
        None \<Rightarrow> (Inl (Err ''failed to decode request body''), res, s)
      | Some requestData \<Rightarrow>
          let requestID = (if HeaderGet req requestIDHeader = [] then InitialNonce requestData
                           else HeaderGet req requestIDHeader)
          in
          case handleIncomingMessage E t requestData req res s of
            (Inl e, res1, s1) \<Rightarrow> (Inl e, res1, s1)
          | (Inr None, res1, s1) \<Rightarrow> (Inr (), res1, s1)
          | (Inr (Some response), res1, s1) \<Rightarrow>
              (Inr (), setupContent E (setupHeaders res1 response requestID) response, s1))"

text \<open>\<open>Transport.HandleGeneralRequest\<close> (lines 119 to 153); the request it returns is nil on the pass-through.\<close>

definition HandleGeneralRequest ::
  "'w Externals \<Rightarrow> Transport \<Rightarrow> Request \<Rightarrow> ResponseRecorder \<Rightarrow> 'w World
     \<Rightarrow> (error + Request option \<times> AuthMessage option) \<times> ResponseRecorder \<times> 'w World" where
  "HandleGeneralRequest E t req res s =
     (let requestID = HeaderGet req requestIDHeader in
      if requestID = [] then
        (if allowUnauthenticated t then (Inr (None, None), res, s)
         else (Inl (Err ''missing request ID''), res, s))
      else
        case checkHeaders req of
          Some e \<Rightarrow> (Inl (Err e), res, s)
        | None \<Rightarrow>
            (case buildAuthMessageFromRequest E req of
               Inl e \<Rightarrow> (Inl (Err e), res, s)
             | Inr requestData \<Rightarrow>
                 (case handleIncomingMessage E t requestData req res s of
                    (Inl e, res1, s1) \<Rightarrow> (Inl e, res1, s1)
                  | (Inr response, res1, s1) \<Rightarrow>
                      (Inr (Some (setupContext req requestData requestID), response), res1, s1))))"

text \<open>
  \<open>Transport.HandleResponse\<close> (lines 156 to 196). The body is the slice it is given: the
  payload is built from the bytes the slice holds at line 171, and the \<open>fmt.Sprintf\<close> of
  line 185 prints the key ID after that (as do the \<open>fmt.Errorf\<close> of line 178 and of
  \<open>createSignature\<close> on their paths).
\<close>

definition HandleResponse ::
  "'w Externals \<Rightarrow> Transport \<Rightarrow> Request option \<Rightarrow> ResponseRecorder \<Rightarrow> Slice \<Rightarrow> int
     \<Rightarrow> AuthMessage option \<Rightarrow> 'w World \<Rightarrow> (error + unit) \<times> ResponseRecorder \<times> 'w World" where
  "HandleResponse E t req res bdy status msg s =
     (if allowUnauthenticated t then (Inr (), res, s)
      else
        case req of
          None \<Rightarrow> (Inl Panic, res, s)
        | Some r \<Rightarrow>
            (case getValuesFromContext r of
               Inl e \<Rightarrow> (Inl (Err e), res, s)
             | Inr (identityKey, requestID) \<Rightarrow>
                 (case GetSession (sessionManager s) identityKey of
                    None \<Rightarrow> (Inl (Err ''session not found''), res, s)
                  | Some session \<Rightarrow>
                      (case buildResponsePayload requestID status (contents (memory res) bdy) of
                         Inl e \<Rightarrow> (Inl e, res, s)
                       | Inr payload \<Rightarrow>
                           (case walletCreateNonce E s of
                              (Inl e, s1) \<Rightarrow>
                                (Inl (Err (''failed to create nonce, '' @ e)),
                                 Sprintf (fmtPool E) (''failed to create nonce, '' @ e) res, s1)
                            | (Inr nonce, s1) \<Rightarrow>
                                let peerNonce = (case PeerNonce session of None \<Rightarrow> []
                                                 | Some p \<Rightarrow> p);
                                    signatureKey = nonce @ '' '' @ peerNonce;
                                    res1 = Sprintf (fmtPool E) signatureKey res
                                in
                                (case createSignature E identityKey signatureKey payload s1 of
                                   (Inl e, s2) \<Rightarrow>
                                     (Inl (Err e), Sprintf (fmtPool E) e res1, s2)
                                 | (Inr signature, s2) \<Rightarrow>
                                     (case msg of
                                        None \<Rightarrow> (Inl Panic, res1, s2)
                                      | Some m \<Rightarrow>
                                          (Inr (),
                                           setupHeaders res1 (m\<lparr>Signature := Some signature\<rparr>)
                                             requestID,
                                           s2))))))))"

section \<open>Auth middleware (package auth)\<close>

text \<open>
  \<open>Middleware.Handler\<close>. The downstream handler is given the request the transport
  returns (nil on the unauthenticated pass-through) and answers with its steps on the
  recorder. The result is the recorder at the end, or nothing when a panic unwinds the
  handler; the world keeps what was done before. \<open>recorder.ResponseWriter.Write(recorder.body)\<close>
  sends the bytes that the body holds at that moment.
\<close>

definition Handler ::
  "'w Externals \<Rightarrow> Transport \<Rightarrow> (Request option \<Rightarrow> handlerStep list) \<Rightarrow> ResponseWriter \<Rightarrow> Request
     \<Rightarrow> 'w World \<Rightarrow> ResponseRecorder option \<times> 'w World" where
  "Handler E t next w req s =
     (let recorder = newRecorder w in
      if Method req = ''POST'' \<and> Path req = ''/.well-known/auth'' then
        (case HandleNonGeneralRequest E t req recorder s of
           (Inl Panic, r1, s1) \<Rightarrow> (None, s1)
         | (_, r1, s1) \<Rightarrow>
             (Some (r1\<lparr>ResponseWriter := writerWrite (recorded r1) (ResponseWriter r1)\<rparr>), s1))
      else
        case HandleGeneralRequest E t req recorder s of
          (Inl Panic, r1, s1) \<Rightarrow> (None, s1)
        | (Inl (Err e), r1, s1) \<Rightarrow> (Some (httpError (fmtPool E) r1 e StatusUnauthorized), s1)
        | (Inr (req1, authMsg), r1, s1) \<Rightarrow>
            let r2 = applyCalls (fmtPool E) (next req1) r1 in
            (case HandleResponse E t req1 r2 (body r2) (statusCode r2) authMsg s1 of
               (Inl Panic, r3, s2) \<Rightarrow> (None, s2)
             | (Inl (Err e), r3, s2) \<Rightarrow>
                 (Some (httpError (fmtPool E) r3 e StatusInternalServerError), s2)
             | (Inr u, r3, s2) \<Rightarrow>
                 (Some (r3\<lparr>ResponseWriter := writerWrite (recorded r3) (ResponseWriter r3)\<rparr>),
                  s2)))"

section \<open>Notions of the specification\<close>

text \<open>
  The bytes a step hands to \<open>Write\<close>, if it calls it, and the bytes of the last \<open>Write\<close>
  among a handler's steps, if it wrote at all.
\<close>

fun bytesWritten :: "handlerStep \<Rightarrow> bytes option" where
  "bytesWritten (CallWrite b) = Some b"
| "bytesWritten (CallFprint s) = Some s"
| "bytesWritten (CallWriteBuffer n b) = Some b"
| "bytesWritten (SetHeader k v) = None"
| "bytesWritten (CallWriteHeader code) = None"
| "bytesWritten (Reuse n b) = None"

fun lastWrite :: "handlerStep list \<Rightarrow> bytes option" where
  "lastWrite [] = None"
| "lastWrite (c # cs) =
     (case lastWrite cs of
        Some b \<Rightarrow> Some b
      | None \<Rightarrow> bytesWritten c)"

text \<open>
  Malformed auth headers, in the words of section 4.6 and section 7: one of version,
  identity-key, nonce, your-nonce and signature is missing, a nonce is not base64, or the
  signature is not hex.
\<close>

definition malformedAuthHeaders :: "Request \<Rightarrow> bool" where
  "malformedAuthHeaders req =
     (HeaderGet req versionHeader = [] \<or> HeaderGet req identityKeyHeader = []
      \<or> HeaderGet req nonceHeader = [] \<or> HeaderGet req yourNonceHeader = []
      \<or> HeaderGet req signatureHeader = []
      \<or> snd (DecodeString (HeaderGet req nonceHeader)) \<noteq> None
      \<or> snd (DecodeString (HeaderGet req yourNonceHeader)) \<noteq> None
      \<or> isl (hexDecodeString (HeaderGet req signatureHeader)))"

definition StatusBadRequest :: int where
  "StatusBadRequest = 400"








section \<open>A mock wallet and concrete scenarios\<close>

text \<open>
  A wallet in the manner of the repository's mock, for running the model: its state is
  the list of nonces it has issued; \<open>CreateNonce\<close> issues a fresh base64 nonce and
  remembers it; \<open>VerifyNonce\<close> recognises the nonces issued; every signature is the text
  whose hex form the test fixtures expect (headers.go), and only that text verifies.
  The pool of package fmt holds one printer, whose buffer every print fills: so it is
  while one goroutine prints and puts the printer back each time, once the buffer has
  grown to the length of a key ID.
\<close>

definition mockSignature :: bytes where
  "mockSignature = ''mocksignaturedata''"

definition mockCreateNonce :: "string list \<Rightarrow> (string + string) \<times> string list" where
  "mockCreateNonce w = (let n = ''AAA'' @ [encodeStd ! length w] in (Inr n, w @ [n]))"

definition mockExternals :: "(bytes \<Rightarrow> AuthMessage option) \<Rightarrow> string list Externals" where
  "mockExternals decode =
     \<lparr>CreateNonce = mockCreateNonce,
      VerifyNonce = (\<lambda>w n. (Inr (n \<in> set w), w)),
      CreateSignature = (\<lambda>w args. (Inr mockSignature, w)),
      VerifySignature = (\<lambda>w args. (Inr (SignatureToVerify args = mockSignature), w)),
      GetPublicKey = (\<lambda>w. (Inr ''02server'', w)),
      ecLib = toyEc,
      WriteRequestData = (\<lambda>req. Inr (Method req @ Path req @ Body req)),
      DecodeAuthMessage = decode,
      MarshalAuthMessage = (\<lambda>m. Inr (''{'' @ MessageType m @ ''}'')),
      MarshalCertificates = (\<lambda>cs. Inr ''[]''),
      fmtPool = (\<lambda>n. 0)\<rparr>"

definition world0 :: "string list World" where
  "world0 = \<lparr>wallet = [], sessionManager = NewSessionManager, calls = [], now = 0\<rparr>"

text \<open>The client's messages: a handshake and a certificate response.\<close>

definition clientKey :: string where
  "clientKey = ''02client''"

definition initialRequestMsg :: AuthMessage where
  "initialRequestMsg =
     zeroAuthMessage\<lparr>Version := ''0.1'', MessageType := ''initialRequest'',
                     IdentityKey := clientKey, InitialNonce := ''QUJD''\<rparr>"

definition certificateResponseMsg :: AuthMessage where
  "certificateResponseMsg =
     zeroAuthMessage\<lparr>Version := ''0.1'', MessageType := ''certificateResponse'',
                     IdentityKey := clientKey, Nonce := Some ''REVG'', YourNonce := Some ''AAAA'',
                     Signature := Some mockSignature, Certificates := Some []\<rparr>"

definition mockDecode :: "bytes \<Rightarrow> AuthMessage option" where
  "mockDecode b =
     (if b = ''initialRequest'' then Some initialRequestMsg
      else if b = ''certificateResponse'' then Some certificateResponseMsg
      else None)"

definition postAuth :: "bytes \<Rightarrow> Request" where
  "postAuth b =
     \<lparr>Method = ''POST'', Path = ''/.well-known/auth'', Header = Map.empty, Body = b,
      Context = Map.empty\<rparr>"

text \<open>
  A general request after the handshake: it answers the session nonce \<open>AAAA\<close> and
  carries the mock signature in hex.
\<close>

definition pingRequest :: Request where
  "pingRequest =
     \<lparr>Method = ''GET'', Path = ''/ping'',
      Header = [requestIDHeader \<mapsto> ''R0hJ'', versionHeader \<mapsto> ''0.1'',
                identityKeyHeader \<mapsto> clientKey, nonceHeader \<mapsto> ''SktM'',
                yourNonceHeader \<mapsto> ''AAAA'',
                signatureHeader \<mapsto> ''6d6f636b7369676e617475726564617461''],
      Body = [], Context = Map.empty\<rparr>"

text \<open>The ping handler of the examples: it writes \<open>Pong!\<close>.\<close>

definition pingHandler :: "Request option \<Rightarrow> handlerStep list" where
  "pingHandler r = [CallWrite ''Pong!'']"

definition strictTransport :: Transport where
  "strictTransport =
     \<lparr>allowUnauthenticated = False, certificateRequirements = None,
      onCertificatesReceived = None\<rparr>"

text \<open>The world after the mock has answered the handshake of \<open>initialRequestMsg\<close>.\<close>

definition sessionAfterHandshake :: "bool \<Rightarrow> PeerSession" where
  "sessionAfterHandshake a =
     \<lparr>IsAuthenticated = a, SessionNonce = Some ''AAAA'', PeerNonce = Some ''QUJD'',
      PeerIdentityKey = Some clientKey, LastUpdate = 0\<rparr>"

definition handshakeCalls :: "call list" where
  "handshakeCalls =
     [CalledCreateNonce (Inr ''AAAA''),
      CalledCreateSignature
        \<lparr>ProtocolID = DefaultAuthProtocol, KeyID = ''QUJDAAAA'',
         EncCounterparty = \<lparr>Type = CounterpartyTypeOther, Counterparty = Some clientKey\<rparr>,
         Data = EncodeToString ''QUJDAAAA''\<rparr> (Inr mockSignature),
      CalledGetPublicKey (Inr ''02server'')]"

definition worldAfterHandshake :: "bool \<Rightarrow> string list World" where
  "worldAfterHandshake a =
     \<lparr>wallet = [''AAAA''],
      sessionManager = \<lparr>byIdentityKey = [clientKey \<mapsto> sessionAfterHandshake a],
                        bySessionNonce = [''AAAA'' \<mapsto> sessionAfterHandshake a]\<rparr>,
      calls = handshakeCalls, now = 0\<rparr>"

text \<open>The mock's view of \<open>pingRequest\<close>, its answer, and the world after it.\<close>

definition pingAuthMessage :: AuthMessage where
  "pingAuthMessage =
     zeroAuthMessage\<lparr>MessageType := ''general'', Version := ''0.1'', IdentityKey := clientKey,
                     Payload := Some ''GHIGET/ping'', Nonce := Some ''SktM'',
                     YourNonce := Some ''AAAA'', Signature := Some mockSignature\<rparr>"

definition generalResponse :: AuthMessage where
  "generalResponse =
     zeroAuthMessage\<lparr>Version := ''0.1'', MessageType := ''general'', IdentityKey := ''02server'',
                     Nonce := Some ''AAAB'', YourNonce := Some ''QUJD''\<rparr>"

definition generalCalls :: "call list" where
  "generalCalls =
     [CalledVerifyNonce ''AAAA'' (Inr True),
      CalledVerifySignature
        \<lparr>ProtocolID = DefaultAuthProtocol, KeyID = ''SktM AAAA'',
         EncCounterparty = \<lparr>Type = CounterpartyTypeOther, Counterparty = Some clientKey\<rparr>,
         DataToVerify = ''GHIGET/ping'', SignatureToVerify = mockSignature\<rparr> (Inr True),
      CalledCreateNonce (Inr ''AAAB''),
      CalledGetPublicKey (Inr ''02server'')]"

definition worldAfterGeneral :: "bool \<Rightarrow> string list World" where
  "worldAfterGeneral a =
     (worldAfterHandshake a)\<lparr>wallet := [''AAAA'', ''AAAB''],
                              calls := handshakeCalls @ generalCalls\<rparr>"

text \<open>The payload of the response \<open>Pong!\<close> with status 200 to request ID \<open>R0hJ\<close>.\<close>

definition pongPayload :: bytes where
  "pongPayload =
     ''GHI'' @ [CHR 0xC8,
       CHR 0xFF, CHR 0xFF, CHR 0xFF, CHR 0xFF, CHR 0xFF, CHR 0xFF, CHR 0xFF, CHR 0xFF, CHR 0xFF,
       CHR 0x05] @ ''Pong!''"

text \<open>The same for the body \<open>Oops!\<close>.\<close>

definition oopsPayload :: bytes where
  "oopsPayload =
     ''GHI'' @ [CHR 0xC8,
       CHR 0xFF, CHR 0xFF, CHR 0xFF, CHR 0xFF, CHR 0xFF, CHR 0xFF, CHR 0xFF, CHR 0xFF, CHR 0xFF,
       CHR 0x05] @ ''Oops!''"

definition responseSignatureCall :: call where
  "responseSignatureCall =
     CalledCreateSignature
       \<lparr>ProtocolID = DefaultAuthProtocol, KeyID = ''AAAC QUJD'',
        EncCounterparty = \<lparr>Type = CounterpartyTypeOther, Counterparty = Some clientKey\<rparr>,
        Data = pongPayload\<rparr> (Inr mockSignature)"

definition freshRecorder :: ResponseRecorder where
  "freshRecorder = newRecorder newResponseWriter"

text \<open>The slice and the memory after \<open>[]byte("Pong!")\<close> in a new memory.\<close>

definition pongSlice :: Slice where
  "pongSlice = \<lparr>array = Allocated 0, len = 5\<rparr>"

definition pongMemory :: Memory where
  "pongMemory = \<lparr>arrays = (\<lambda>a. [])(Allocated 0 := ''Pong!''), allocations = 1, prints = 0\<rparr>"


text \<open>A handler that writes twice.\<close>

definition twoWriteHandler :: "Request option \<Rightarrow> handlerStep list" where
  "twoWriteHandler r = [CallWrite ''Hello, '', CallWrite ''Pong!'']"

text \<open>
  The same with \<open>fmt.Fprint(w, "Hello, "); fmt.Fprint(w, "Pong!")\<close>, and a handler that
  writes from a buffer of its own and uses the buffer again before it returns.
\<close>

definition fprintHandler :: "Request option \<Rightarrow> handlerStep list" where
  "fprintHandler r = [CallFprint ''Hello, '', CallFprint ''Pong!'']"

definition bufferHandler :: "Request option \<Rightarrow> handlerStep list" where
  "bufferHandler r = [CallWriteBuffer 0 ''Hello, '', CallWriteBuffer 0 ''Pong!'', Reuse 0 ''Oops!'']"

text \<open>\<open>pingRequest\<close> without its version header.\<close>

definition noVersionRequest :: Request where
  "noVersionRequest = pingRequest\<lparr>Header := (Header pingRequest)(versionHeader := None)\<rparr>"







section \<open>Properties\<close>

subsection \<open>Key deriver\<close>

lemma HasPrefix_iff_prefix: "HasPrefix s p = prefix p s"
proof
  assume "HasPrefix s p"
  then have "take (length p) s = p" by (simp add: HasPrefix_def)
  then show "prefix p s" by (metis take_is_prefix)
next
  assume "prefix p s"
  then obtain r where "s = p @ r" by (auto simp: prefix_def)
  then show "HasPrefix s p" by (simp add: HasPrefix_def)
qed

lemma HasSuffix_iff_suffix: "HasSuffix s x = suffix x s"
proof
  assume "HasSuffix s x"
  then have "drop (length s - length x) s = x" by (simp add: HasSuffix_def)
  then show "suffix x s" by (metis suffix_drop)
next
  assume "suffix x s"
  then obtain r where "s = r @ x" by (auto simp: suffix_def)
  then show "HasSuffix s x" by (simp add: HasSuffix_def)
qed

lemma Contains_iff_sublist: "Contains s sub = sublist sub s"
  by (induction s) (simp_all add: sublist_Cons_right HasPrefix_iff_prefix)

lemma byte_val_eq_iff: "byte_val c = n \<longleftrightarrow> n < 256 \<and> c = byte_of n"
  by (auto simp: byte_val_def byte_of_def)

lemma isLowerDigitSpace_iff: "isLowerDigitSpace c = lowercaseLetterDigitOrSpace c"
proof -
  have "c = CHR '' '' \<longleftrightarrow> (of_char c :: nat) = of_char (CHR '' '')"
    by (simp only: of_char_eq_iff)
  then show ?thesis
    by (simp add: isLowerDigitSpace_def lowercaseLetterDigitOrSpace_def less_eq_char_def
        byte_val_def)
qed

lemma regex_iff:
  "(\<exists>c \<in> set s. \<not> lowercaseLetterDigitOrSpace c) \<longleftrightarrow>
     s \<noteq> [] \<and> \<not> regexOnlyLettersNumbersSpaces s"
  unfolding regexOnlyLettersNumbersSpaces_def list_all_iff isLowerDigitSpace_iff by auto

lemma fmt_d_levels: "fmt_d 0 = ''0''" "fmt_d 1 = ''1''" "fmt_d 2 = ''2''"
  by code_simp+

lemma invoiceConstraintFails_code:
  "invoiceConstraintFails level name keyID =
     (level < 0 \<or> level > 2 \<or> length keyID > 800 \<or> length keyID < 1
      \<or> (length name > 400 \<and> (HasPrefix name ''specific linkage revelation '' \<longrightarrow> length name > 430))
      \<or> length name < 5 \<or> Contains name ''  '' \<or> \<not> regexOnlyLettersNumbersSpaces name
      \<or> HasSuffix name '' protocol'')"
proof -
  have lv: "level \<notin> {0, 1, 2} \<longleftrightarrow> level < 0 \<or> level > 2" by auto
  have e: "name = [] \<Longrightarrow> length name < 5" by simp
  show ?thesis
    unfolding invoiceConstraintFails_def lv regex_iff Contains_iff_sublist
      HasPrefix_iff_prefix HasSuffix_iff_suffix
    using e by (cases "prefix ''specific linkage revelation '' name") auto
qed

lemma computeInvoiceNumber_ok:
  assumes "\<not> invoiceConstraintFails (SecurityLevel p) (ToLower L (TrimSpace L (Protocol p))) keyID"
  shows "computeInvoiceNumber L p keyID =
     Inr (fmt_d (SecurityLevel p) @ ''-'' @ ToLower L (TrimSpace L (Protocol p)) @ ''-'' @ keyID)"
  using assms unfolding invoiceConstraintFails_code computeInvoiceNumber_def Let_def
  by (auto simp add: not_less)

lemma computeInvoiceNumber_fails:
  assumes "invoiceConstraintFails (SecurityLevel p) (ToLower L (TrimSpace L (Protocol p))) keyID"
  shows "isl (computeInvoiceNumber L p keyID)"
  using assms unfolding invoiceConstraintFails_code computeInvoiceNumber_def Let_def
  by (auto simp add: not_less split: if_splits)


text \<open>
  C7. \<open>computeInvoiceNumber\<close> returns an error exactly when a validation constraint of
  the specification fails for the security level, the key ID and the trimmed, lowercased
  protocol name; in every other case it returns the security level, that name and the key
  ID joined by dashes. Lengths are counts of bytes, as Go's \<open>len\<close> gives them; a name
  with a character of more than one byte fails the constraint on characters in any case.
\<close>

theorem computeInvoiceNumber_spec:
  "(isl (computeInvoiceNumber L p keyID) \<longleftrightarrow>
      invoiceConstraintFails (SecurityLevel p) (ToLower L (TrimSpace L (Protocol p))) keyID)
   \<and> (\<not> invoiceConstraintFails (SecurityLevel p) (ToLower L (TrimSpace L (Protocol p))) keyID \<longrightarrow>
      computeInvoiceNumber L p keyID =
        Inr (fmt_d (SecurityLevel p) @ ''-'' @ ToLower L (TrimSpace L (Protocol p)) @ ''-'' @ keyID))"
proof (cases "invoiceConstraintFails (SecurityLevel p) (ToLower L (TrimSpace L (Protocol p))) keyID")
  case True
  then show ?thesis by (simp add: computeInvoiceNumber_fails)
next
  case False
  then show ?thesis by (simp add: computeInvoiceNumber_ok)
qed

theorem computeInvoiceNumber_spec_witness:
  "\<not> invoiceConstraintFails 2 ''auth message signature'' ''n1 n2''
   \<and> computeInvoiceNumber asciiStrings
        \<lparr>SecurityLevel = 2, Protocol = '' Auth Message Signature ''\<rparr> ''n1 n2''
      = Inr ''2-auth message signature-n1 n2''"
proof -
  have n: "ToLower asciiStrings (TrimSpace asciiStrings '' Auth Message Signature '')
             = ''auth message signature''"
    by code_simp
  have ok: "\<not> invoiceConstraintFails 2 ''auth message signature'' ''n1 n2''"
    by code_simp
  show ?thesis
    using computeInvoiceNumber_spec
      [of asciiStrings "\<lparr>SecurityLevel = 2, Protocol = '' Auth Message Signature ''\<rparr>" "''n1 n2''"]
      n ok
    by (simp add: fmt_d_levels)
qed

text \<open>
  C8. \<open>normalizeCounterparty\<close> maps type self to the deriver's own root public key,
  anyone to the public key of private scalar 1, other to the supplied public key (an
  error when it is nil), and uninitialized or any other type value to an error.
\<close>

theorem normalizeCounterparty_cases:
  "(Type cp = CounterpartyTypeSelf \<longrightarrow>
      normalizeCounterparty ec kd cp = Inr (PubKey ec (rootKey kd)))
   \<and> (Type cp = CounterpartyTypeAnyone \<longrightarrow>
      normalizeCounterparty ec kd cp = Inr (PubKey ec 1) \<and> fst (AnyoneKey ec) = 1)
   \<and> (Type cp = CounterpartyTypeOther \<longrightarrow>
      (\<forall>k. Counterparty cp = Some k \<longrightarrow> normalizeCounterparty ec kd cp = Inr k)
      \<and> (Counterparty cp = None \<longrightarrow> isl (normalizeCounterparty ec kd cp)))
   \<and> (Type cp \<notin> {CounterpartyTypeSelf, CounterpartyTypeAnyone, CounterpartyTypeOther} \<longrightarrow>
      isl (normalizeCounterparty ec kd cp))"
  by (simp add: normalizeCounterparty_def AnyoneKey_def PrivateKeyFromBytes_def
      CounterpartyTypeSelf_def CounterpartyTypeAnyone_def CounterpartyTypeOther_def
      CounterpartyUninitialized_def byte_val_def byte_of_def)

theorem normalizeCounterparty_cases_witness:
  "normalizeCounterparty toyEc \<lparr>rootKey = 7\<rparr> \<lparr>Type = 2, Counterparty = None\<rparr> = Inr ''pub7''
   \<and> normalizeCounterparty toyEc \<lparr>rootKey = 7\<rparr> \<lparr>Type = 1, Counterparty = None\<rparr> = Inr ''pub1''
   \<and> normalizeCounterparty toyEc \<lparr>rootKey = 7\<rparr> \<lparr>Type = 3, Counterparty = Some ''02ab''\<rparr>
       = Inr ''02ab''
   \<and> isl (normalizeCounterparty toyEc \<lparr>rootKey = 7\<rparr> \<lparr>Type = 3, Counterparty = None\<rparr>)
   \<and> isl (normalizeCounterparty toyEc \<lparr>rootKey = 7\<rparr> \<lparr>Type = 0, Counterparty = None\<rparr>)
   \<and> isl (normalizeCounterparty toyEc \<lparr>rootKey = 7\<rparr> \<lparr>Type = 4, Counterparty = Some ''02ab''\<rparr>)"
proof -
  have p: "PubKey toyEc 7 = ''pub7''" "PubKey toyEc 1 = ''pub1''"
    by code_simp+
  show ?thesis
    using normalizeCounterparty_cases [of "\<lparr>Type = 2, Counterparty = None\<rparr>" toyEc "\<lparr>rootKey = 7\<rparr>"]
      normalizeCounterparty_cases [of "\<lparr>Type = 1, Counterparty = None\<rparr>" toyEc "\<lparr>rootKey = 7\<rparr>"]
      normalizeCounterparty_cases [of "\<lparr>Type = 3, Counterparty = Some ''02ab''\<rparr>" toyEc "\<lparr>rootKey = 7\<rparr>"]
      normalizeCounterparty_cases [of "\<lparr>Type = 3, Counterparty = None\<rparr>" toyEc "\<lparr>rootKey = 7\<rparr>"]
      normalizeCounterparty_cases [of "\<lparr>Type = 0, Counterparty = None\<rparr>" toyEc "\<lparr>rootKey = 7\<rparr>"]
      normalizeCounterparty_cases [of "\<lparr>Type = 4, Counterparty = Some ''02ab''\<rparr>" toyEc "\<lparr>rootKey = 7\<rparr>"]
      p
    by (simp add: CounterpartyTypeSelf_def CounterpartyTypeAnyone_def CounterpartyTypeOther_def)
qed

subsection \<open>The mock wallet, evaluated\<close>

lemmas byte_eval = byte_of_def byte_val_def char_of_def bit_Suc_0_iff

lemma mock_CreateNonce:
  "walletCreateNonce (mockExternals d) s =
     (Inr (''AAA'' @ [encodeStd ! length (wallet s)]),
      s\<lparr>wallet := wallet s @ [''AAA'' @ [encodeStd ! length (wallet s)]],
        calls := calls s @ [CalledCreateNonce (Inr (''AAA'' @ [encodeStd ! length (wallet s)]))]\<rparr>)"
  by (simp add: walletCreateNonce_def mockExternals_def mockCreateNonce_def Let_def)

lemma mock_VerifyNonce:
  "walletVerifyNonce (mockExternals d) n s =
     (Inr (n \<in> set (wallet s)),
      s\<lparr>calls := calls s @ [CalledVerifyNonce n (Inr (n \<in> set (wallet s)))]\<rparr>)"
  by (simp add: walletVerifyNonce_def mockExternals_def)

lemma mock_CreateSignature:
  "walletCreateSignature (mockExternals d) args s =
     (Inr mockSignature, s\<lparr>calls := calls s @ [CalledCreateSignature args (Inr mockSignature)]\<rparr>)"
  by (simp add: walletCreateSignature_def mockExternals_def)

lemma mock_VerifySignature:
  "walletVerifySignature (mockExternals d) args s =
     (Inr (SignatureToVerify args = mockSignature),
      s\<lparr>calls := calls s
           @ [CalledVerifySignature args (Inr (SignatureToVerify args = mockSignature))]\<rparr>)"
  by (simp add: walletVerifySignature_def mockExternals_def)

lemma mock_GetPublicKey:
  "walletGetPublicKey (mockExternals d) s =
     (Inr ''02server'', s\<lparr>calls := calls s @ [CalledGetPublicKey (Inr ''02server'')]\<rparr>)"
  by (simp add: walletGetPublicKey_def mockExternals_def)

lemma mock_libs:
  "PublicKeyFromString (ecLib (mockExternals d)) k =
     (if k = [] then Inl ''pubkey string is empty'' else Inr k)"
  "ParseSignature (ecLib (mockExternals d)) b =
     (if b = [] then Inl ''malformed signature: too short'' else Inr b)"
  "WriteRequestData (mockExternals d) req = Inr (Method req @ Path req @ Body req)"
  "DecodeAuthMessage (mockExternals d) = d"
  "MarshalAuthMessage (mockExternals d) m = Inr (''{'' @ MessageType m @ ''}'')"
  "MarshalCertificates (mockExternals d) cs = Inr ''[]''"
  "fmtPool (mockExternals d) n = 0"
  by (simp_all add: mockExternals_def toyEc_def)

lemmas mock_eval = mock_CreateNonce mock_VerifyNonce mock_CreateSignature mock_VerifySignature
  mock_GetPublicKey mock_libs

lemma mock_fmtPool: "fmtPool (mockExternals d) = (\<lambda>n. 0)"
  by (simp add: mockExternals_def)

lemma mock_createSignature:
  "createSignature (mockExternals d) k keyID dat s =
     (if k = [] then (Inl ''failed to parse identity key, pubkey string is empty'', s)
      else
       (Inr mockSignature,
        s\<lparr>calls := calls s @ [CalledCreateSignature
            \<lparr>ProtocolID = DefaultAuthProtocol, KeyID = keyID,
             EncCounterparty = \<lparr>Type = CounterpartyTypeOther, Counterparty = Some k\<rparr>,
             Data = dat\<rparr> (Inr mockSignature)]\<rparr>))"
  by (simp add: createSignature_def mock_eval)

lemma mock_handshake:
  "handleInitialRequest (mockExternals d) t initialRequestMsg world0 =
     (Inr (zeroAuthMessage
             \<lparr>Version := ''0.1'', MessageType := ''initialResponse'', IdentityKey := ''02server'',
              InitialNonce := ''AAAA'', YourNonce := Some ''QUJD'',
              Signature := Some mockSignature,
              RequestedCertificates :=
                (case certificateRequirements t of
                   None \<Rightarrow> \<lparr>Certifiers = [], Types = []\<rparr>
                 | Some r \<Rightarrow> r)\<rparr>),
      worldAfterHandshake (certificateRequirements t = None))"
  by (cases "certificateRequirements t")
    (simp_all add: handleInitialRequest_def createNonGeneralAuthSignature_def
      mock_createSignature mock_eval Let_def initialRequestMsg_def zeroAuthMessage_def
      world0_def worldAfterHandshake_def sessionAfterHandshake_def handshakeCalls_def
      AuthVersion_def clientKey_def AddSession_def NewSessionManager_def encodeStd_def)

subsection \<open>Version check\<close>

text \<open>
  C9. For a message of any type whose version is not \<open>0.1\<close>, \<open>handleIncomingMessage\<close>
  returns the error \<open>unsupported version\<close> before it dispatches on the message type:
  the response writer and the world (sessions, wallet, calls made) are returned as they
  were given.
\<close>

theorem handleIncomingMessage_unsupported_version:
  "Version msg \<noteq> AuthVersion \<Longrightarrow>
     handleIncomingMessage E t msg req res s = (Inl (Err ''unsupported version''), res, s)"
  by (simp add: handleIncomingMessage_def)

theorem handleIncomingMessage_unsupported_version_witness:
  "Version (initialRequestMsg\<lparr>Version := ''0.2''\<rparr>) \<noteq> AuthVersion
   \<and> handleIncomingMessage (mockExternals mockDecode) strictTransport
        (initialRequestMsg\<lparr>Version := ''0.2''\<rparr>) (postAuth ''initialRequest'')
        freshRecorder world0
      = (Inl (Err ''unsupported version''),
         freshRecorder, world0)
   \<and> sessionManager world0 = NewSessionManager \<and> calls world0 = []"
  using handleIncomingMessage_unsupported_version
    [of "initialRequestMsg\<lparr>Version := ''0.2''\<rparr>" "mockExternals mockDecode" strictTransport
        "postAuth ''initialRequest''"
        freshRecorder world0]
  by (simp add: AuthVersion_def world0_def)

subsection \<open>Initial request\<close>

text \<open>
  C3, evaluated. An initial request with an identity key and an empty initial nonce is
  answered, and a session with an empty peer nonce is stored; one with an empty identity
  key and an initial nonce fails at the signature, after a session with an empty peer
  identity key has been stored.
\<close>

theorem handleInitialRequest_one_field_missing:
  "(case handleInitialRequest (mockExternals mockDecode) strictTransport
           (initialRequestMsg\<lparr>InitialNonce := []\<rparr>) world0 of
      (Inr response, s) \<Rightarrow>
        GetSession (sessionManager s) clientKey =
          Some \<lparr>IsAuthenticated = True, SessionNonce = Some ''AAAA'', PeerNonce = Some [],
                PeerIdentityKey = Some clientKey, LastUpdate = 0\<rparr>
    | (Inl e, s) \<Rightarrow> False)
   \<and> (case handleInitialRequest (mockExternals mockDecode) strictTransport
              (initialRequestMsg\<lparr>IdentityKey := []\<rparr>) world0 of
         (Inl e, s) \<Rightarrow>
           GetSession (sessionManager s) ''AAAA'' =
             Some \<lparr>IsAuthenticated = True, SessionNonce = Some ''AAAA'', PeerNonce = Some ''QUJD'',
                   PeerIdentityKey = Some [], LastUpdate = 0\<rparr>
       | (Inr response, s) \<Rightarrow> False)"
  by (simp add: handleInitialRequest_def createNonGeneralAuthSignature_def
      mock_createSignature mock_eval Let_def initialRequestMsg_def zeroAuthMessage_def
      world0_def strictTransport_def clientKey_def AddSession_def GetSession_def
      NewSessionManager_def encodeStd_def)

subsection \<open>Response payload\<close>

lemma le_bytes_numeral:
  "le_bytes (numeral k) v = byte_of (v mod 256) # le_bytes (pred_numeral k) (v div 256)"
  by (metis le_bytes.simps(2) numeral_eq_Suc)

lemma le_bytes_1: "le_bytes 1 v = [byte_of (v mod 256)]"
  by (metis One_nat_def le_bytes.simps)

lemma WriteVarIntNum_sentinel:
  "WriteVarIntNum (- 1) =
     Inr [CHR 0xFF, CHR 0xFF, CHR 0xFF, CHR 0xFF, CHR 0xFF, CHR 0xFF, CHR 0xFF, CHR 0xFF, CHR 0xFF]"
  by (simp add: WriteVarIntNum_def le_bytes_numeral le_bytes_1 byte_eval)

lemma buildResponsePayload_eq:
  "buildResponsePayload requestID responseStatus responseBody =
     (case DecodeString requestID of
        (_, Some _) \<Rightarrow> Inl (Err ''failed to decode request ID'')
      | (requestIDBytes, None) \<Rightarrow>
          Inr (requestIDBytes @ projr (WriteVarIntNum responseStatus)
               @ projr (WriteVarIntNum (- 1))
               @ (if responseBody = [] then projr (WriteVarIntNum (- 1))
                  else projr (WriteVarIntNum (int (length responseBody))) @ responseBody)))"
  by (cases "WriteVarIntNum responseStatus"; cases "WriteVarIntNum (- 1)";
      cases "WriteVarIntNum (int (length responseBody))")
     (simp_all add: buildResponsePayload_def WriteVarIntNum_def split: prod.splits option.splits)

text \<open>
  C1, evaluated. For request ID \<open>AAAA\<close>, status 200 and body \<open>Pong!\<close> the payload is the
  three request ID bytes, the status, the nine bytes of the sentinel -1 where the header
  count stands, and the body: the same bytes whatever headers the response carries, also
  when the filter of section 4.4 keeps one of them, as it keeps \<open>content-type\<close> and
  drops \<open>etag\<close> here.
\<close>

theorem buildResponsePayload_header_sentinel:
  "buildResponsePayload ''AAAA'' 200 ''Pong!'' =
     Inr ([CHR 0x00, CHR 0x00, CHR 0x00, CHR 0xC8,
           CHR 0xFF, CHR 0xFF, CHR 0xFF, CHR 0xFF, CHR 0xFF, CHR 0xFF, CHR 0xFF, CHR 0xFF, CHR 0xFF,
           CHR 0x05] @ ''Pong!'')
   \<and> FilterAndSortHeaders [(''etag'', ''1''), (''content-type'', ''text/plain'')]
       = [(''content-type'', ''text/plain'')]"
proof -
  have d: "DecodeString ''AAAA'' = ([CHR 0x00, CHR 0x00, CHR 0x00], None)"
    by (simp add: DecodeString_def b64index_def byte_eval)
  have p: "buildResponsePayload ''AAAA'' 200 ''Pong!'' =
     Inr ([CHR 0x00, CHR 0x00, CHR 0x00, CHR 0xC8,
           CHR 0xFF, CHR 0xFF, CHR 0xFF, CHR 0xFF, CHR 0xFF, CHR 0xFF, CHR 0xFF, CHR 0xFF, CHR 0xFF,
           CHR 0x05] @ ''Pong!'')"
    by (simp add: buildResponsePayload_eq d WriteVarIntNum_sentinel)
       (simp add: WriteVarIntNum_def byte_eval)
  have f: "FilterAndSortHeaders [(''etag'', ''1''), (''content-type'', ''text/plain'')]
       = [(''content-type'', ''text/plain'')]"
    by (simp add: FilterAndSortHeaders_def includedHeader_def HasPrefix_def)
  from p f show ?thesis by simp
qed

subsection \<open>A general request, evaluated on the mock\<close>

lemma header_names:
  "requestIDHeader = ''x-bsv-auth-request-id''" "versionHeader = ''x-bsv-auth-version''"
  "identityKeyHeader = ''x-bsv-auth-identity-key''" "nonceHeader = ''x-bsv-auth-nonce''"
  "yourNonceHeader = ''x-bsv-auth-your-nonce''" "signatureHeader = ''x-bsv-auth-signature''"
  "messageTypeHeader = ''x-bsv-auth-message-type''"
  by (simp_all add: requestIDHeader_def versionHeader_def identityKeyHeader_def nonceHeader_def
      yourNonceHeader_def signatureHeader_def messageTypeHeader_def authHeaderPrefix_def)

lemma ping_headers:
  "HeaderGet pingRequest requestIDHeader = ''R0hJ''"
  "HeaderGet pingRequest versionHeader = ''0.1''"
  "HeaderGet pingRequest identityKeyHeader = clientKey"
  "HeaderGet pingRequest nonceHeader = ''SktM''"
  "HeaderGet pingRequest yourNonceHeader = ''AAAA''"
  "HeaderGet pingRequest signatureHeader = ''6d6f636b7369676e617475726564617461''"
  by (simp_all add: HeaderGet_def pingRequest_def header_names)

lemma decode_nonces:
  "DecodeString ''R0hJ'' = (''GHI'', None)"
  "snd (DecodeString ''SktM'') = None"
  "snd (DecodeString ''AAAA'') = None"
  by (simp_all add: DecodeString_def b64index_def byte_eval)

lemma decode_mock_signature:
  "hexDecodeString ''6d6f636b7369676e617475726564617461'' = Inr mockSignature"
  by (simp add: fromHexChar_def mockSignature_def byte_eval)

lemma encode_mock_signature:
  "hexEncodeToString mockSignature = ''6d6f636b7369676e617475726564617461''"
  by (simp add: hexEncodeToString_def hextable_def mockSignature_def byte_eval)

lemma ping_validations:
  "validateBase64 ''SktM'' = None" "validateBase64 ''AAAA'' = None"
  "isHex ''6d6f636b7369676e617475726564617461''"
  by (simp_all add: validateBase64_def DecodeString_def b64index_def isHex_def
      decode_mock_signature byte_eval del: hexDecodeString.simps)

lemma ping_checkHeaders: "checkHeaders pingRequest = None"
  by (simp add: checkHeaders_def ping_headers ping_validations clientKey_def)

lemma ping_buildAuthMessage:
  "buildAuthMessageFromRequest (mockExternals d) pingRequest = Inr pingAuthMessage"
  by (simp add: buildAuthMessageFromRequest_def ping_headers decode_nonces
      decode_mock_signature mock_eval Let_def pingAuthMessage_def clientKey_def
      del: hexDecodeString.simps)
     (simp add: pingRequest_def)

lemma ping_handleGeneralRequest:
  "IsAuthenticated (sessionAfterHandshake a) \<or> allowUnauthenticated t \<Longrightarrow>
   handleGeneralRequest (mockExternals d) t pingAuthMessage (worldAfterHandshake a) =
     (Inr generalResponse, worldAfterGeneral a)"
  by (simp add: handleGeneralRequest_def pingAuthMessage_def zeroAuthMessage_def mock_eval
      worldAfterHandshake_def worldAfterGeneral_def sessionAfterHandshake_def GetSession_def
      UpdateSession_def AddSession_def generalResponse_def generalCalls_def mockSignature_def
      AuthVersion_def clientKey_def encodeStd_def Let_def)

lemma ping_HandleGeneralRequest:
  "IsAuthenticated (sessionAfterHandshake a) \<or> allowUnauthenticated t \<Longrightarrow>
   HandleGeneralRequest (mockExternals d) t pingRequest res (worldAfterHandshake a) =
     (Inr (Some (setupContext pingRequest pingAuthMessage ''R0hJ''), Some generalResponse),
      res, worldAfterGeneral a)"
  by (simp add: HandleGeneralRequest_def ping_headers ping_checkHeaders ping_buildAuthMessage
      handleIncomingMessage_def ping_handleGeneralRequest Let_def)
     (simp add: pingAuthMessage_def zeroAuthMessage_def AuthVersion_def General_def
      InitialRequest_def CertificateResponse_def InitialResponse_def CertificateRequest_def)


lemma pong_payload: "buildResponsePayload ''R0hJ'' 200 ''Pong!'' = Inr pongPayload"
  by (simp add: buildResponsePayload_eq decode_nonces WriteVarIntNum_sentinel pongPayload_def)
     (simp add: WriteVarIntNum_def byte_eval)

lemma ping_context:
  "getValuesFromContext (setupContext pingRequest pingAuthMessage ''R0hJ'') = Inr (clientKey, ''R0hJ'')"
  by (simp add: getValuesFromContext_def setupContext_def pingAuthMessage_def zeroAuthMessage_def)

lemma ping_HandleResponse:
  "\<not> allowUnauthenticated t \<Longrightarrow> contents (memory res) bdy = ''Pong!'' \<Longrightarrow>
   HandleResponse (mockExternals d) t (Some (setupContext pingRequest pingAuthMessage ''R0hJ''))
       res bdy 200 (Some generalResponse) (worldAfterGeneral a) =
     (Inr (),
      setupHeaders (Sprintf (fmtPool (mockExternals d)) ''AAAC QUJD'' res)
        (generalResponse\<lparr>Signature := Some mockSignature\<rparr>) ''R0hJ'',
      (worldAfterGeneral a)
        \<lparr>wallet := [''AAAA'', ''AAAB'', ''AAAC''],
         calls := handshakeCalls @ generalCalls
                  @ [CalledCreateNonce (Inr ''AAAC''), responseSignatureCall]\<rparr>)"
  by (simp add: HandleResponse_def ping_context pong_payload mock_createSignature
      mock_CreateNonce mock_VerifyNonce mock_CreateSignature mock_VerifySignature
      mock_GetPublicKey mock_libs(1-6)
      worldAfterGeneral_def worldAfterHandshake_def sessionAfterHandshake_def GetSession_def
      responseSignatureCall_def clientKey_def encodeStd_def Let_def)

lemma response_headers:
  "wHeader (ResponseWriter (setupHeaders res (generalResponse\<lparr>Signature := Some mockSignature\<rparr>) rid))
     = (wHeader (ResponseWriter res))
         (versionHeader \<mapsto> ''0.1'', messageTypeHeader \<mapsto> ''general'',
          identityKeyHeader \<mapsto> ''02server'', requestIDHeader \<mapsto> rid,
          nonceHeader \<mapsto> ''AAAB'', yourNonceHeader \<mapsto> ''QUJD'',
          signatureHeader \<mapsto> ''6d6f636b7369676e617475726564617461'')"
  by (simp add: setupHeaders_def generalResponse_def zeroAuthMessage_def HeaderSet_def
      General_def encode_mock_signature Let_def)

lemma Handler_general:
  "\<not> (Method req = ''POST'' \<and> Path req = ''/.well-known/auth'') \<Longrightarrow>
   Handler E t next w req s =
     (case HandleGeneralRequest E t req (newRecorder w) s of
        (Inl Panic, r1, s1) \<Rightarrow> (None, s1)
      | (Inl (Err e), r1, s1) \<Rightarrow> (Some (httpError (fmtPool E) r1 e StatusUnauthorized), s1)
      | (Inr (req1, authMsg), r1, s1) \<Rightarrow>
          (case HandleResponse E t req1 (applyCalls (fmtPool E) (next req1) r1)
                  (body (applyCalls (fmtPool E) (next req1) r1))
                  (statusCode (applyCalls (fmtPool E) (next req1) r1))
                  authMsg s1 of
             (Inl Panic, r3, s2) \<Rightarrow> (None, s2)
           | (Inl (Err e), r3, s2) \<Rightarrow>
               (Some (httpError (fmtPool E) r3 e StatusInternalServerError), s2)
           | (Inr u, r3, s2) \<Rightarrow>
               (Some (r3\<lparr>ResponseWriter := writerWrite (recorded r3) (ResponseWriter r3)\<rparr>),
                s2)))"
  by (simp only: Handler_def Let_def if_False)

lemma ping_is_general:
  "\<not> (Method pingRequest = ''POST'' \<and> Path pingRequest = ''/.well-known/auth'')"
  by (simp add: pingRequest_def)

lemma pongRecorder:
  "WriteAllocated ''Pong!'' freshRecorder = freshRecorder\<lparr>body := pongSlice, memory := pongMemory\<rparr>"
  "contents pongMemory pongSlice = ''Pong!''"
  by (simp_all add: WriteAllocated_def alloc_def Write_def freshRecorder_def newRecorder_def
      newMemory_def pongSlice_def pongMemory_def contents_def)

lemma pingHandler_recorder:
  "applyCalls pool (pingHandler x) freshRecorder = WriteAllocated ''Pong!'' freshRecorder"
  "body (WriteAllocated ''Pong!'' freshRecorder) = pongSlice"
  "memory (WriteAllocated ''Pong!'' freshRecorder) = pongMemory"
  "statusCode (WriteAllocated ''Pong!'' freshRecorder) = 200"
  "ResponseWriter (WriteAllocated ''Pong!'' freshRecorder) = newResponseWriter"
  "recorded (WriteAllocated ''Pong!'' freshRecorder) = ''Pong!''"
  by (simp_all add: applyCalls_def pingHandler_def pongRecorder recorded_def)
     (simp_all add: freshRecorder_def newRecorder_def StatusOK_def)

lemma setupHeaders_body:
  "body (setupHeaders r m rid) = body r"
  "memory (setupHeaders r m rid) = memory r"
  "recorded (setupHeaders r m rid) = recorded r"
  by (simp_all add: setupHeaders_def HeaderSet_def recorded_def Let_def split: option.splits)

text \<open>A print leaves alone every array but the buffer of the printer it is given.\<close>

lemma fmtPrint_arrays:
  "a \<noteq> PrinterBuffer (pool (prints mem)) \<Longrightarrow>
     arrays (snd (fmtPrint pool s mem)) a = arrays mem a"
  by (simp add: fmtPrint_def store_def)

lemma Sprintf_fields:
  "body (Sprintf pool s r) = body r"
  "statusCode (Sprintf pool s r) = statusCode r"
  "ResponseWriter (Sprintf pool s r) = ResponseWriter r"
  by (simp_all add: Sprintf_def)

lemma Sprintf_recorded:
  "array (body r) \<noteq> PrinterBuffer (pool (prints (memory r))) \<Longrightarrow>
     recorded (Sprintf pool s r) = recorded r"
  by (simp add: Sprintf_def recorded_def contents_def fmtPrint_arrays)

lemma pong_recorded:
  "recorded (Sprintf pool s (WriteAllocated ''Pong!'' freshRecorder)) = ''Pong!''"
  by (simp add: Sprintf_recorded pongRecorder pongSlice_def)
     (simp add: recorded_def pongRecorder(2)[unfolded pongSlice_def])

lemma ping_Handler_strict:
  assumes t: "\<not> allowUnauthenticated t" and a: "IsAuthenticated (sessionAfterHandshake a)"
  shows "Handler (mockExternals d) t pingHandler newResponseWriter pingRequest
           (worldAfterHandshake a) =
     (Some ((setupHeaders
               (Sprintf (fmtPool (mockExternals d)) ''AAAC QUJD''
                  (WriteAllocated ''Pong!'' freshRecorder))
               (generalResponse\<lparr>Signature := Some mockSignature\<rparr>) ''R0hJ'')
            \<lparr>ResponseWriter :=
               writerWrite ''Pong!''
                 (ResponseWriter
                    (setupHeaders (WriteAllocated ''Pong!'' freshRecorder)
                       (generalResponse\<lparr>Signature := Some mockSignature\<rparr>) ''R0hJ''))\<rparr>),
      (worldAfterGeneral a)
        \<lparr>wallet := [''AAAA'', ''AAAB'', ''AAAC''],
         calls := handshakeCalls @ generalCalls
                  @ [CalledCreateNonce (Inr ''AAAC''), responseSignatureCall]\<rparr>)"
proof -
  have w: "ResponseWriter (setupHeaders (Sprintf pool s r) m rid) = ResponseWriter (setupHeaders r m rid)"
    for pool s r m rid
    by (simp add: setupHeaders_def HeaderSet_def Sprintf_def Let_def split: option.splits)
  have c: "contents (memory (WriteAllocated ''Pong!'' freshRecorder))
             (body (WriteAllocated ''Pong!'' freshRecorder)) = ''Pong!''"
    by (simp add: pongRecorder)
  show ?thesis
    using a
    by (simp add: Handler_general[OF ping_is_general] freshRecorder_def[symmetric]
        ping_HandleGeneralRequest pingHandler_recorder(1,4) ping_HandleResponse[OF t c]
        setupHeaders_body pong_recorded w)
qed

lemma writerWrite_fields:
  "wHeader (writerWrite b w) = wHeader w"
  "wBody (writerWrite b w) = wBody w @ b"
  "wroteHeader (writerWrite b w)"
  "wStatus (writerWrite b w) = (if wroteHeader w then wStatus w else 200)"
  by (simp_all add: writerWrite_def writerWriteHeader_def Let_def)

text \<open>
  C2, evaluated. After the handshake the mock answers \<open>pingRequest\<close>: the general message
  carries the nonce \<open>AAAB\<close> that \<open>handleGeneralRequest\<close> created, and this is what the
  \<open>x-bsv-auth-nonce\<close> header holds; \<open>HandleResponse\<close> creates a further nonce \<open>AAAC\<close>,
  which it does not store in the message, and signs the payload under the key ID
  \<open>AAAC QUJD\<close>.
\<close>

theorem general_response_nonce_differs_from_signing_nonce:
  "snd (handleInitialRequest (mockExternals mockDecode) strictTransport initialRequestMsg world0)
     = worldAfterHandshake True
   \<and> (case Handler (mockExternals mockDecode) strictTransport pingHandler newResponseWriter
              pingRequest (worldAfterHandshake True) of
         (Some r, s) \<Rightarrow>
           wHeader (ResponseWriter r) nonceHeader = Some ''AAAB''
           \<and> wHeader (ResponseWriter r) signatureHeader = Some (hexEncodeToString mockSignature)
           \<and> last (calls s) =
               CalledCreateSignature
                 \<lparr>ProtocolID = DefaultAuthProtocol, KeyID = ''AAAC QUJD'',
                  EncCounterparty =
                    \<lparr>Type = CounterpartyTypeOther, Counterparty = Some clientKey\<rparr>,
                  Data = pongPayload\<rparr> (Inr mockSignature)
       | (None, s) \<Rightarrow> False)"
proof -
  have t: "\<not> allowUnauthenticated strictTransport" "certificateRequirements strictTransport = None"
    by (simp_all add: strictTransport_def)
  have a: "IsAuthenticated (sessionAfterHandshake True)"
    by (simp add: sessionAfterHandshake_def)
  show ?thesis
    by (simp add: mock_handshake t ping_Handler_strict[OF t(1) a] writerWrite_fields
        response_headers header_names encode_mock_signature
        responseSignatureCall_def)
qed

subsection \<open>What the handlers do to the world\<close>

lemma walletCreateNonce_world:
  "walletCreateNonce E s = (r, s') \<Longrightarrow>
     sessionManager s' = sessionManager s \<and> now s' = now s
     \<and> calls s' = calls s @ [CalledCreateNonce r]"
  by (auto simp: walletCreateNonce_def split: prod.splits)


lemma walletCreateSignature_world:
  "walletCreateSignature E args s = (r, s') \<Longrightarrow>
     sessionManager s' = sessionManager s \<and> now s' = now s
     \<and> calls s' = calls s @ [CalledCreateSignature args r]"
  by (auto simp: walletCreateSignature_def split: prod.splits)



lemma createSignature_world:
  "createSignature E k keyID dat s = (r, s') \<Longrightarrow>
     sessionManager s' = sessionManager s \<and> now s' = now s
     \<and> (\<exists>cs. calls s' = calls s @ cs
          \<and> (\<forall>sig. r = Inr sig \<longrightarrow>
                (\<exists>key. PublicKeyFromString (ecLib E) k = Inr key
                   \<and> cs = [CalledCreateSignature
                            \<lparr>ProtocolID = DefaultAuthProtocol, KeyID = keyID,
                             EncCounterparty =
                               \<lparr>Type = CounterpartyTypeOther, Counterparty = Some key\<rparr>,
                             Data = dat\<rparr> (Inr sig)])))"
  by (auto simp: createSignature_def split: sum.splits prod.splits
      dest!: walletCreateSignature_world)


lemma buildAuthMessage_fields:
  assumes "buildAuthMessageFromRequest E req = Inr m"
  shows "MessageType m = ''general''" "Version m = HeaderGet req versionHeader"
    "IdentityKey m = HeaderGet req identityKeyHeader"
    "YourNonce m = (if HeaderGet req yourNonceHeader \<noteq> [] then Some (HeaderGet req yourNonceHeader)
                    else None)"
  using assms
  by (auto simp: buildAuthMessageFromRequest_def Let_def zeroAuthMessage_def
      split: sum.splits if_splits)

lemma handleIncomingMessage_general:
  "MessageType msg = ''general'' \<Longrightarrow>
   handleIncomingMessage E t msg req res s =
     (if Version msg \<noteq> AuthVersion then (Inl (Err ''unsupported version''), res, s)
      else case handleGeneralRequest E t msg s of
             (Inl e, s1) \<Rightarrow> (Inl e, res, s1)
           | (Inr response, s1) \<Rightarrow> (Inr (Some response), res, s1))"
  by (simp add: handleIncomingMessage_def General_def InitialRequest_def
      CertificateResponse_def InitialResponse_def CertificateRequest_def)




subsection \<open>Unauthenticated mode\<close>




subsection \<open>Malformed auth headers\<close>

lemma hexDecodeString_odd: "odd (length s) \<Longrightarrow> isl (hexDecodeString s)"
proof (induction s rule: hexDecodeString.induct)
  case 1
  then show ?case by simp
next
  case (2 p)
  then show ?case by simp
next
  case (3 p q rest)
  show ?case
  proof (cases "fromHexChar p")
    case None
    then show ?thesis by simp
  next
    case a: (Some a)
    show ?thesis
    proof (cases "fromHexChar q")
      case None
      with a show ?thesis by simp
    next
      case b: (Some b)
      from "3.prems" have "odd (length rest)" by simp
      with "3.IH" a b have "isl (hexDecodeString rest)" by simp
      with a b show ?thesis by (cases "hexDecodeString rest") simp_all
    qed
  qed
qed

lemma isHex_iff: "isHex s = (\<not> isl (hexDecodeString s))"
  using hexDecodeString_odd[of s] by (auto simp: isHex_def odd_iff_mod_2_eq_one)

lemma checkHeaders_malformed: "(checkHeaders req \<noteq> None) = malformedAuthHeaders req"
  by (auto simp: checkHeaders_def malformedAuthHeaders_def validateBase64_def isHex_iff
      split: prod.splits option.splits)

lemma HandleGeneralRequest_malformed:
  assumes "malformedAuthHeaders req"
    and "HeaderGet req requestIDHeader \<noteq> [] \<or> \<not> allowUnauthenticated t"
  shows "\<exists>e. HandleGeneralRequest E t req res s = (Inl (Err e), res, s)"
proof -
  from assms(1) obtain e where "checkHeaders req = Some e"
    using checkHeaders_malformed[of req] by auto
  with assms(2) show ?thesis
    by (cases "HeaderGet req requestIDHeader = []") (auto simp: HandleGeneralRequest_def Let_def)
qed

lemma httpError_fields:
  "statusCode (httpError pool r msg code) = code"
  "recorded (httpError pool r msg code) = msg @ [CHR 0x0A]"
  "wBody (ResponseWriter (httpError pool r msg code)) = wBody (ResponseWriter r)"
  "wroteHeader (ResponseWriter (httpError pool r msg code))"
  "\<not> wroteHeader (ResponseWriter r) \<Longrightarrow>
     wStatus (ResponseWriter (httpError pool r msg code)) = code"
  by (simp_all add: httpError_def Fprint_def fmtPrint_def store_def Write_def WriteHeader_def
      HeaderSet_def writerWriteHeader_def recorded_def contents_def)

lemma newRecorder_fields:
  "ResponseWriter (newRecorder w) = w" "statusCode (newRecorder w) = StatusOK"
  "body (newRecorder w) = nilSlice" "memory (newRecorder w) = newMemory"
  "recorded (newRecorder w) = []"
  by (simp_all add: newRecorder_def recorded_def contents_def nilSlice_def)

lemma Handler_rejects_malformed:
  assumes "\<not> (Method req = ''POST'' \<and> Path req = ''/.well-known/auth'')"
    and "malformedAuthHeaders req"
    and "HeaderGet req requestIDHeader \<noteq> [] \<or> \<not> allowUnauthenticated t"
  shows "\<exists>e. Handler E t next w req s =
           (Some (httpError (fmtPool E) (newRecorder w) e StatusUnauthorized), s)"
proof -
  from HandleGeneralRequest_malformed[OF assms(2,3)] obtain e where
    "HandleGeneralRequest E t req (newRecorder w) s
       = (Inl (Err e), (newRecorder w), s)"
    by blast
  then show ?thesis by (auto simp add: Handler_general[OF assms(1)])
qed

lemma noVersionRequest_facts:
  "\<not> (Method noVersionRequest = ''POST'' \<and> Path noVersionRequest = ''/.well-known/auth'')"
  "malformedAuthHeaders noVersionRequest"
  "HeaderGet noVersionRequest requestIDHeader \<noteq> []"
  by (simp_all add: noVersionRequest_def pingRequest_def malformedAuthHeaders_def HeaderGet_def
      header_names)

text \<open>
  C5, as stated, fails: a general request without the version header is answered by the
  middleware with status 401, not 400.
\<close>

theorem missing_version_header_is_401:
  "malformedAuthHeaders noVersionRequest
   \<and> (case Handler (mockExternals mockDecode) strictTransport pingHandler newResponseWriter
              noVersionRequest (worldAfterHandshake True) of
         (Some r, s) \<Rightarrow>
           wStatus (ResponseWriter r) = 401 \<and> wStatus (ResponseWriter r) \<noteq> StatusBadRequest
       | (None, s) \<Rightarrow> False)"
proof -
  from Handler_rejects_malformed[OF noVersionRequest_facts(1,2), of strictTransport
      "mockExternals mockDecode" pingHandler newResponseWriter "worldAfterHandshake True"]
    noVersionRequest_facts(3)
  obtain e where "Handler (mockExternals mockDecode) strictTransport pingHandler newResponseWriter
              noVersionRequest (worldAfterHandshake True) =
           (Some (httpError (fmtPool (mockExternals mockDecode)) (newRecorder newResponseWriter)
                    e StatusUnauthorized), worldAfterHandshake True)"
    by blast
  then show ?thesis
    by (simp add: noVersionRequest_facts httpError_fields newRecorder_fields
        newResponseWriter_def StatusUnauthorized_def StatusBadRequest_def)
qed

text \<open>
  C5, amended. A general request whose auth headers are malformed (one of version,
  identity-key, nonce, your-nonce and signature missing, a nonce or your-nonce that is not
  base64, a signature that is not hex), and that carries \<open>x-bsv-auth-request-id\<close> or
  arrives when \<open>allowUnauthenticated\<close> is off, is answered with status 401
  (Unauthorized): the handler is not run, nothing is written to the client's body and
  the world is left as it was.
\<close>

theorem malformed_headers_unauthorized:
  assumes "\<not> (Method req = ''POST'' \<and> Path req = ''/.well-known/auth'')"
    and "malformedAuthHeaders req"
    and "HeaderGet req requestIDHeader \<noteq> [] \<or> \<not> allowUnauthenticated t"
    and "\<not> wroteHeader w"
  shows "\<exists>r. Handler E t next w req s = (Some r, s)
           \<and> wroteHeader (ResponseWriter r)
           \<and> wStatus (ResponseWriter r) = StatusUnauthorized
           \<and> statusCode r = StatusUnauthorized
           \<and> wBody (ResponseWriter r) = wBody w"
proof -
  from Handler_rejects_malformed[OF assms(1,2,3)] obtain e where
    "Handler E t next w req s =
       (Some (httpError (fmtPool E) (newRecorder w) e StatusUnauthorized), s)"
    by blast
  with assms(4) show ?thesis by (simp add: httpError_fields newRecorder_fields)
qed

theorem malformed_headers_unauthorized_witness:
  "\<not> (Method noVersionRequest = ''POST'' \<and> Path noVersionRequest = ''/.well-known/auth'')
   \<and> malformedAuthHeaders noVersionRequest
   \<and> HeaderGet noVersionRequest requestIDHeader \<noteq> []
   \<and> \<not> wroteHeader newResponseWriter
   \<and> (\<exists>r. Handler (mockExternals mockDecode) strictTransport pingHandler newResponseWriter
              noVersionRequest (worldAfterHandshake True) = (Some r, worldAfterHandshake True)
           \<and> wStatus (ResponseWriter r) = 401 \<and> wBody (ResponseWriter r) = [])"
proof -
  have w: "\<not> wroteHeader newResponseWriter" "wBody newResponseWriter = []"
    by (simp_all add: newResponseWriter_def)
  from malformed_headers_unauthorized[OF noVersionRequest_facts(1,2) _ w(1),
      of strictTransport "mockExternals mockDecode" pingHandler "worldAfterHandshake True"]
    noVersionRequest_facts(3)
  have "\<exists>r. Handler (mockExternals mockDecode) strictTransport pingHandler newResponseWriter
              noVersionRequest (worldAfterHandshake True) = (Some r, worldAfterHandshake True)
           \<and> wStatus (ResponseWriter r) = 401 \<and> wBody (ResponseWriter r) = []"
    by (auto simp: StatusUnauthorized_def w)
  with noVersionRequest_facts w show ?thesis by blast
qed



subsection \<open>The recorded body\<close>

lemma writer_body_applyCalls:
  "wBody (ResponseWriter (applyCalls pool cs r)) = wBody (ResponseWriter r)"
  unfolding applyCalls_def
proof (induction cs arbitrary: r)
  case Nil
  then show ?case by simp
next
  case (Cons c cs)
  show ?case
    by (cases c)
      (simp_all add: Cons.IH HeaderSet_def WriteHeader_def Write_def WriteAllocated_def
        Fprint_def writerWriteHeader_def split: prod.splits)
qed

lemma setupHeaders_writer_body:
  "wBody (ResponseWriter (setupHeaders r m rid)) = wBody (ResponseWriter r)"
  by (simp add: setupHeaders_def HeaderSet_def Let_def split: option.splits)

lemma HandleGeneralRequest_recorder:
  assumes "HandleGeneralRequest E t req res s = (x, res1, s1)"
  shows "res1 = res"
proof (cases "HeaderGet req requestIDHeader = [] \<or> checkHeaders req \<noteq> None
              \<or> isl (buildAuthMessageFromRequest E req)")
  case True
  with assms show ?thesis
    by (auto simp: HandleGeneralRequest_def Let_def split: if_splits option.splits sum.splits)
next
  case False
  then obtain requestData where b: "buildAuthMessageFromRequest E req = Inr requestData"
    by (cases "buildAuthMessageFromRequest E req") auto
  from assms False b show ?thesis
    by (auto simp: HandleGeneralRequest_def Let_def
        handleIncomingMessage_general[OF buildAuthMessage_fields(1)[OF b]]
        split: if_splits prod.splits sum.splits)
qed

text \<open>
  A response handled without error: the recorder keeps its slice, the payload signed is
  built from the bytes the slice held when \<open>HandleResponse\<close> was called, and when
  responses are signed the key ID has been printed since.
\<close>

lemma HandleResponse_success:
  assumes ok: "HandleResponse E t req r b st m s = (Inr u, r3, s2)"
  shows "body r3 = body r" "wBody (ResponseWriter r3) = wBody (ResponseWriter r)"
    "allowUnauthenticated t \<Longrightarrow> memory r3 = memory r"
    "\<not> allowUnauthenticated t \<Longrightarrow>
       \<exists>req1 rid args sig n.
         req = Some req1 \<and> Context req1 CtxRequestID = Some rid
         \<and> buildResponsePayload rid st (contents (memory r) b) = Inr (Data args)
         \<and> calls s2 = calls s @ [CalledCreateNonce (Inr n), CalledCreateSignature args (Inr sig)]
         \<and> memory r3 = snd (fmtPrint (fmtPool E) (KeyID args) (memory r))"
proof -
  have "body r3 = body r \<and> wBody (ResponseWriter r3) = wBody (ResponseWriter r)
        \<and> (allowUnauthenticated t \<longrightarrow> memory r3 = memory r)
        \<and> (\<not> allowUnauthenticated t \<longrightarrow>
             (\<exists>req1 rid args sig n.
                req = Some req1 \<and> Context req1 CtxRequestID = Some rid
                \<and> buildResponsePayload rid st (contents (memory r) b) = Inr (Data args)
                \<and> calls s2 = calls s @ [CalledCreateNonce (Inr n),
                                        CalledCreateSignature args (Inr sig)]
                \<and> memory r3 = snd (fmtPrint (fmtPool E) (KeyID args) (memory r))))"
  proof (cases "allowUnauthenticated t")
    case True
    with ok show ?thesis by (simp add: HandleResponse_def)
  next
    case False
    from ok False obtain req1 where req: "req = Some req1"
      by (cases req) (simp_all add: HandleResponse_def)
    from ok False req obtain identityKey rid where
      ctx: "getValuesFromContext req1 = Inr (identityKey, rid)"
      by (cases "getValuesFromContext req1") (auto simp: HandleResponse_def)
    then have rid: "Context req1 CtxRequestID = Some rid"
      by (auto simp: getValuesFromContext_def split: option.splits)
    from ok False req ctx obtain session where
      ses: "GetSession (sessionManager s) identityKey = Some session"
      by (cases "GetSession (sessionManager s) identityKey") (simp_all add: HandleResponse_def)
    from ok False req ctx ses obtain payload where
      pay: "buildResponsePayload rid st (contents (memory r) b) = Inr payload"
      by (cases "buildResponsePayload rid st (contents (memory r) b)")
        (simp_all add: HandleResponse_def)
    obtain rn sa where cn: "walletCreateNonce E s = (rn, sa)"
      by (cases "walletCreateNonce E s")
    from ok False req ctx ses pay cn obtain n where n: "rn = Inr n"
      by (cases rn) (simp_all add: HandleResponse_def)
    define keyID where
      "keyID = n @ '' '' @ (case PeerNonce session of None \<Rightarrow> [] | Some p \<Rightarrow> p)"
    obtain rs sb where cs: "createSignature E identityKey keyID payload sa = (rs, sb)"
      by (cases "createSignature E identityKey keyID payload sa")
    from ok False req ctx ses pay cn n cs obtain sig where sig: "rs = Inr sig"
      by (cases rs) (simp_all add: HandleResponse_def Let_def keyID_def)
    from ok False req ctx ses pay cn n cs sig obtain m1 where m: "m = Some m1"
      by (cases m) (simp_all add: HandleResponse_def Let_def keyID_def)
    from ok False req ctx ses pay cn n cs sig m
    have res: "r3 = setupHeaders (Sprintf (fmtPool E) keyID r) (m1\<lparr>Signature := Some sig\<rparr>) rid"
      "s2 = sb"
      by (simp_all add: HandleResponse_def Let_def keyID_def)
    from createSignature_world[OF cs[unfolded sig]] walletCreateNonce_world[OF cn[unfolded n]]
    obtain args where
      "calls sb = calls s @ [CalledCreateNonce (Inr n), CalledCreateSignature args (Inr sig)]"
      "Data args = payload" "KeyID args = keyID"
      by auto
    with req rid pay res False show ?thesis
      by (auto simp: setupHeaders_body setupHeaders_writer_body Sprintf_def)
  qed
  then show "body r3 = body r" "wBody (ResponseWriter r3) = wBody (ResponseWriter r)"
    "allowUnauthenticated t \<Longrightarrow> memory r3 = memory r"
    "\<not> allowUnauthenticated t \<Longrightarrow>
       \<exists>req1 rid args sig n.
         req = Some req1 \<and> Context req1 CtxRequestID = Some rid
         \<and> buildResponsePayload rid st (contents (memory r) b) = Inr (Data args)
         \<and> calls s2 = calls s @ [CalledCreateNonce (Inr n), CalledCreateSignature args (Inr sig)]
         \<and> memory r3 = snd (fmtPrint (fmtPool E) (KeyID args) (memory r))"
    by blast+
qed

text \<open>
  The recorder holds the slice of the last \<open>Write\<close>. When that slice is of an array
  allocated for it, as with \<open>w.Write([]byte(s))\<close>, no later step and no print stores
  anything in the array, and the slice holds the bytes written for good.
\<close>

lemma applyCall_allocated:
  "allocations (memory r) \<le> allocations (memory (applyCall pool r c))"
  "k < allocations (memory r) \<Longrightarrow>
     arrays (memory (applyCall pool r c)) (Allocated k) = arrays (memory r) (Allocated k)"
  by (cases c;
      simp add: HeaderSet_def WriteHeader_def Write_def WriteAllocated_def alloc_def Fprint_def
        fmtPrint_def store_def)+

lemma applyCalls_allocated:
  "allocations (memory r) \<le> allocations (memory (applyCalls pool cs r))
   \<and> (k < allocations (memory r) \<longrightarrow>
        arrays (memory (applyCalls pool cs r)) (Allocated k) = arrays (memory r) (Allocated k))"
  unfolding applyCalls_def
proof (induction cs arbitrary: r)
  case Nil
  then show ?case by simp
next
  case (Cons c cs)
  from Cons.IH[of "applyCall pool r c"] applyCall_allocated(1)[of r pool c]
    applyCall_allocated(2)[where k = k and r = r and pool = pool and c = c]
  show ?case by auto
qed

lemma applyCalls_no_write:
  "\<forall>c \<in> set cs. bytesWritten c = None \<Longrightarrow> body (applyCalls pool cs r) = body r"
  unfolding applyCalls_def
proof (induction cs arbitrary: r)
  case Nil
  then show ?case by simp
next
  case (Cons c cs)
  then show ?case
    by (cases c) (simp_all add: HeaderSet_def WriteHeader_def)
qed

lemma applyCalls_append:
  "applyCalls pool (xs @ ys) r = applyCalls pool ys (applyCalls pool xs r)"
  by (simp add: applyCalls_def)

lemma allocated_write_recorded:
  assumes steps: "cs = before @ CallWrite b # after"
    and last: "\<forall>c \<in> set after. bytesWritten c = None"
  shows "\<exists>k. body (applyCalls pool cs r) = \<lparr>array = Allocated k, len = length b\<rparr>
             \<and> arrays (memory (applyCalls pool cs r)) (Allocated k) = b"
proof -
  define r1 where "r1 = applyCalls pool before r"
  define r2 where "r2 = WriteAllocated b r1"
  let ?k = "allocations (memory r1)"
  have r2: "body r2 = \<lparr>array = Allocated ?k, len = length b\<rparr>"
    "arrays (memory r2) (Allocated ?k) = b" "?k < allocations (memory r2)"
    by (simp_all add: r2_def WriteAllocated_def alloc_def Write_def)
  have cs: "applyCalls pool cs r = applyCalls pool after r2"
    by (simp add: steps applyCalls_append r1_def r2_def) (simp add: applyCalls_def)
  from applyCalls_no_write[OF last, of pool r2] applyCalls_allocated[of r2 pool after ?k] r2 cs
  show ?thesis by auto
qed

lemma allocated_survives_print:
  "array sl = Allocated k \<Longrightarrow> contents (snd (fmtPrint pool s mem)) sl = contents mem sl"
  by (simp add: contents_def fmtPrint_arrays)

text \<open>
  So the claim holds of the handlers that write as those of the repository do: on a
  general request that is accepted and whose response is handled without error, if the
  last \<open>Write\<close> of the handler is \<open>w.Write([]byte(b))\<close>, the payload given to the wallet's
  \<open>CreateSignature\<close> (when responses are signed) is built from \<open>b\<close>, and \<open>b\<close> alone is
  appended to what the client receives.
\<close>

lemma allocated_write_is_signed_and_sent:
  assumes general: "\<not> (Method req = ''POST'' \<and> Path req = ''/.well-known/auth'')"
    and accepted: "HandleGeneralRequest E t req (newRecorder w) s
                     = (Inr (req1, authMsg), r1, s1)"
    and steps: "next req1 = before @ CallWrite b # after"
    and last: "\<forall>c \<in> set after. bytesWritten c = None"
    and handled: "HandleResponse E t req1 (applyCalls (fmtPool E) (next req1) r1)
                    (body (applyCalls (fmtPool E) (next req1) r1))
                    (statusCode (applyCalls (fmtPool E) (next req1) r1))
                    authMsg s1 = (Inr (), r3, s2)"
  shows "recorded (applyCalls (fmtPool E) (next req1) r1) = b
     \<and> (\<exists>r. Handler E t next w req s = (Some r, s2) \<and> wBody (ResponseWriter r) = wBody w @ b)
     \<and> (\<not> allowUnauthenticated t \<longrightarrow>
          (\<exists>rid args sig n.
             buildResponsePayload rid (statusCode (applyCalls (fmtPool E) (next req1) r1)) b
               = Inr (Data args)
             \<and> calls s2 = calls s1 @ [CalledCreateNonce (Inr n),
                                      CalledCreateSignature args (Inr sig)]))"
proof -
  let ?r2 = "applyCalls (fmtPool E) (next req1) r1"
  from allocated_write_recorded[OF steps last, of "fmtPool E" r1] obtain k where
    k: "body ?r2 = \<lparr>array = Allocated k, len = length b\<rparr>"
       "arrays (memory ?r2) (Allocated k) = b"
    by blast
  then have b: "recorded ?r2 = b"
    by (simp add: recorded_def contents_def)
  have r1: "r1 = newRecorder w"
    using HandleGeneralRequest_recorder[OF accepted] .
  have h: "Handler E t next w req s =
             (Some (r3\<lparr>ResponseWriter := writerWrite (recorded r3) (ResponseWriter r3)\<rparr>), s2)"
    using accepted handled by (simp add: Handler_general[OF general])
  have "recorded r3 = b"
  proof (cases "allowUnauthenticated t")
    case True
    with HandleResponse_success(1,3)[OF handled] b show ?thesis
      by (simp add: recorded_def)
  next
    case False
    from HandleResponse_success(4)[OF handled False] obtain key where
      "memory r3 = snd (fmtPrint (fmtPool E) key (memory ?r2))"
      by blast
    with HandleResponse_success(1)[OF handled] k(1) b show ?thesis
      by (simp add: recorded_def allocated_survives_print)
  qed
  then have "wBody (ResponseWriter (r3\<lparr>ResponseWriter :=
                 writerWrite (recorded r3) (ResponseWriter r3)\<rparr>)) = wBody w @ b"
    using HandleResponse_success(2)[OF handled] r1
    by (simp add: writerWrite_fields writer_body_applyCalls newRecorder_fields)
  with h have f: "\<exists>r. Handler E t next w req s = (Some r, s2)
                    \<and> wBody (ResponseWriter r) = wBody w @ b"
    by blast
  have p: "\<exists>rid args sig n.
             buildResponsePayload rid (statusCode ?r2) b = Inr (Data args)
             \<and> calls s2 = calls s1 @ [CalledCreateNonce (Inr n),
                                      CalledCreateSignature args (Inr sig)]"
    if "\<not> allowUnauthenticated t"
    using HandleResponse_success(4)[OF handled that] b by (auto simp: recorded_def)
  from b f p show ?thesis by blast
qed

text \<open>The handler that writes twice as the examples write, on the mock: \<open>Pong!\<close> is signed and sent.\<close>

lemma twoWriteHandler_is_signed_and_sent:
  "\<exists>r s2. Handler (mockExternals mockDecode) strictTransport twoWriteHandler
             newResponseWriter pingRequest (worldAfterHandshake True) = (Some r, s2)
           \<and> wBody (ResponseWriter r) = ''Pong!''
           \<and> last (calls s2) = responseSignatureCall"
proof -
  let ?E = "mockExternals mockDecode"
  let ?req1 = "Some (setupContext pingRequest pingAuthMessage ''R0hJ'')"
  let ?r2 = "applyCalls (fmtPool ?E) (twoWriteHandler ?req1) (newRecorder newResponseWriter)"
  let ?s2 = "(worldAfterGeneral True)
        \<lparr>wallet := [''AAAA'', ''AAAB'', ''AAAC''],
         calls := handshakeCalls @ generalCalls
                  @ [CalledCreateNonce (Inr ''AAAC''), responseSignatureCall]\<rparr>"
  have t: "\<not> allowUnauthenticated strictTransport" by (simp add: strictTransport_def)
  have a: "IsAuthenticated (sessionAfterHandshake True) \<or> allowUnauthenticated strictTransport"
    by (simp add: sessionAfterHandshake_def)
  have g: "HandleGeneralRequest ?E strictTransport pingRequest (newRecorder newResponseWriter)
             (worldAfterHandshake True)
           = (Inr (?req1, Some generalResponse), newRecorder newResponseWriter,
              worldAfterGeneral True)"
    using ping_HandleGeneralRequest[OF a] .
  have steps: "twoWriteHandler ?req1 = [CallWrite ''Hello, ''] @ CallWrite ''Pong!'' # []"
    by (simp add: twoWriteHandler_def)
  have r2: "statusCode ?r2 = 200" "contents (memory ?r2) (body ?r2) = ''Pong!''"
    by (simp_all add: applyCalls_def twoWriteHandler_def WriteAllocated_def alloc_def Write_def
        newRecorder_def newMemory_def contents_def StatusOK_def)
  have h: "HandleResponse ?E strictTransport ?req1 ?r2 (body ?r2) (statusCode ?r2)
             (Some generalResponse) (worldAfterGeneral True)
           = (Inr (),
              setupHeaders (Sprintf (fmtPool ?E) ''AAAC QUJD'' ?r2)
                (generalResponse\<lparr>Signature := Some mockSignature\<rparr>) ''R0hJ'', ?s2)"
    using ping_HandleResponse[OF t r2(2)] by (simp add: r2(1))
  have "\<forall>c \<in> set []. bytesWritten c = None" by simp
  from allocated_write_is_signed_and_sent[where ?next = twoWriteHandler,
      OF ping_is_general g steps this h]
  obtain r where
    "Handler ?E strictTransport twoWriteHandler newResponseWriter pingRequest
       (worldAfterHandshake True) = (Some r, ?s2)"
    "wBody (ResponseWriter r) = wBody newResponseWriter @ ''Pong!''"
    by blast
  then show ?thesis
    by (simp add: newResponseWriter_def)
qed

text \<open>The mock's answer to \<open>pingRequest\<close> after the handshake, whatever the handler does.\<close>

lemma ping_HandleResponse_payload:
  "\<not> allowUnauthenticated t \<Longrightarrow>
   buildResponsePayload ''R0hJ'' 200 (contents (memory res) bdy) = Inr payload \<Longrightarrow>
   HandleResponse (mockExternals d) t (Some (setupContext pingRequest pingAuthMessage ''R0hJ''))
       res bdy 200 (Some generalResponse) (worldAfterGeneral a) =
     (Inr (),
      setupHeaders (Sprintf (\<lambda>n. 0) ''AAAC QUJD'' res)
        (generalResponse\<lparr>Signature := Some mockSignature\<rparr>) ''R0hJ'',
      (worldAfterGeneral a)
        \<lparr>wallet := [''AAAA'', ''AAAB'', ''AAAC''],
         calls := handshakeCalls @ generalCalls
                  @ [CalledCreateNonce (Inr ''AAAC''),
                     CalledCreateSignature
                       \<lparr>ProtocolID = DefaultAuthProtocol, KeyID = ''AAAC QUJD'',
                        EncCounterparty =
                          \<lparr>Type = CounterpartyTypeOther, Counterparty = Some clientKey\<rparr>,
                        Data = payload\<rparr> (Inr mockSignature)]\<rparr>)"
  by (simp add: HandleResponse_def ping_context mock_createSignature
      mock_CreateNonce mock_VerifyNonce mock_CreateSignature mock_VerifySignature
      mock_GetPublicKey mock_libs(1-6) mock_fmtPool
      worldAfterGeneral_def worldAfterHandshake_def sessionAfterHandshake_def GetSession_def
      clientKey_def encodeStd_def Let_def)

lemma ping_Handler_steps:
  assumes t: "\<not> allowUnauthenticated t" and a: "IsAuthenticated (sessionAfterHandshake a)"
    and r2: "applyCalls (\<lambda>n. 0) (next (Some (setupContext pingRequest pingAuthMessage ''R0hJ'')))
               freshRecorder = r2"
    and st: "statusCode r2 = 200"
    and pay: "buildResponsePayload ''R0hJ'' 200 (recorded r2) = Inr payload"
  shows "\<exists>r3. Handler (mockExternals d) t next newResponseWriter pingRequest
                (worldAfterHandshake a) =
     (Some r3,
      (worldAfterGeneral a)
        \<lparr>wallet := [''AAAA'', ''AAAB'', ''AAAC''],
         calls := handshakeCalls @ generalCalls
                  @ [CalledCreateNonce (Inr ''AAAC''),
                     CalledCreateSignature
                       \<lparr>ProtocolID = DefaultAuthProtocol, KeyID = ''AAAC QUJD'',
                        EncCounterparty =
                          \<lparr>Type = CounterpartyTypeOther, Counterparty = Some clientKey\<rparr>,
                        Data = payload\<rparr> (Inr mockSignature)]\<rparr>)
     \<and> wBody (ResponseWriter r3) = recorded (Sprintf (\<lambda>n. 0) ''AAAC QUJD'' r2)"
proof -
  have w: "wBody (ResponseWriter r2) = []"
    using writer_body_applyCalls[of "\<lambda>n. 0" _ freshRecorder] r2
    by (auto simp: freshRecorder_def newRecorder_fields newResponseWriter_def)
  from pay have p: "buildResponsePayload ''R0hJ'' 200 (contents (memory r2) (body r2)) = Inr payload"
    by (simp add: recorded_def)
  show ?thesis
    using a
    by (simp add: Handler_general[OF ping_is_general] freshRecorder_def[symmetric]
        ping_HandleGeneralRequest mock_fmtPool r2 st ping_HandleResponse_payload[OF t p]
        setupHeaders_body setupHeaders_writer_body writerWrite_fields Sprintf_fields w)
qed

text \<open>
  The recorder after \<open>fmt.Fprint(w, "Hello, "); fmt.Fprint(w, "Pong!")\<close>: its body is a
  slice of the printer's buffer, which holds \<open>Pong!\<close> until the next print. And after the
  handler that writes from its own buffer and then uses the buffer again.
\<close>

lemma fprintHandler_recorder:
  "statusCode (applyCalls (\<lambda>n. 0) (fprintHandler x) freshRecorder) = 200"
  "recorded (applyCalls (\<lambda>n. 0) (fprintHandler x) freshRecorder) = ''Pong!''"
  "recorded (Sprintf (\<lambda>n. 0) ''AAAC QUJD'' (applyCalls (\<lambda>n. 0) (fprintHandler x) freshRecorder))
     = ''AAAC ''"
  by (simp_all add: applyCalls_def fprintHandler_def Fprint_def Sprintf_def fmtPrint_def store_def
      Write_def freshRecorder_def newRecorder_def newMemory_def nilSlice_def StatusOK_def
      recorded_def contents_def)

lemma bufferHandler_recorder:
  "statusCode (applyCalls (\<lambda>n. 0) (bufferHandler x) freshRecorder) = 200"
  "recorded (applyCalls (\<lambda>n. 0) (bufferHandler x) freshRecorder) = ''Oops!''"
  "recorded (Sprintf (\<lambda>n. 0) ''AAAC QUJD'' (applyCalls (\<lambda>n. 0) (bufferHandler x) freshRecorder))
     = ''Oops!''"
  by (simp_all add: applyCalls_def bufferHandler_def Sprintf_def fmtPrint_def store_def
      Write_def freshRecorder_def newRecorder_def newMemory_def nilSlice_def StatusOK_def
      recorded_def contents_def)

lemma oops_payload: "buildResponsePayload ''R0hJ'' 200 ''Oops!'' = Inr oopsPayload"
  by (simp add: buildResponsePayload_eq decode_nonces WriteVarIntNum_sentinel oopsPayload_def)
     (simp add: WriteVarIntNum_def byte_eval)

text \<open>
  C10, evaluated. After the handshake the mock answers \<open>pingRequest\<close>. With the handler
  \<open>fmt.Fprint(w, "Hello, "); fmt.Fprint(w, "Pong!")\<close> the last \<open>Write\<close> is given the bytes
  \<open>Pong!\<close> in the buffer of fmt's printer and the recorder keeps that slice;
  \<open>HandleResponse\<close> builds the payload from \<open>Pong!\<close> and has it signed, then its
  \<open>fmt.Sprintf\<close> prints the key ID \<open>AAAC QUJD\<close> into the same buffer, and the client is
  sent \<open>AAAC \<close>, the first five bytes of the key ID, under a signature made for \<open>Pong!\<close>.
  With the handler that writes \<open>Hello, \<close> and \<open>Pong!\<close> from a buffer of its own and puts
  \<open>Oops!\<close> into the buffer before it returns, the payload signed and the body sent are
  those of \<open>Oops!\<close>. In both the bytes last written are \<open>Pong!\<close>.
\<close>

theorem recorder_keeps_slice_not_bytes:
  "lastWrite (fprintHandler None) = Some ''Pong!''
   \<and> (case Handler (mockExternals mockDecode) strictTransport fprintHandler newResponseWriter
              pingRequest (worldAfterHandshake True) of
         (Some r, s) \<Rightarrow>
           wBody (ResponseWriter r) = ''AAAC ''
           \<and> last (calls s) =
               CalledCreateSignature
                 \<lparr>ProtocolID = DefaultAuthProtocol, KeyID = ''AAAC QUJD'',
                  EncCounterparty =
                    \<lparr>Type = CounterpartyTypeOther, Counterparty = Some clientKey\<rparr>,
                  Data = pongPayload\<rparr> (Inr mockSignature)
       | (None, s) \<Rightarrow> False)
   \<and> lastWrite (bufferHandler None) = Some ''Pong!''
   \<and> (case Handler (mockExternals mockDecode) strictTransport bufferHandler newResponseWriter
              pingRequest (worldAfterHandshake True) of
         (Some r, s) \<Rightarrow>
           wBody (ResponseWriter r) = ''Oops!''
           \<and> last (calls s) =
               CalledCreateSignature
                 \<lparr>ProtocolID = DefaultAuthProtocol, KeyID = ''AAAC QUJD'',
                  EncCounterparty =
                    \<lparr>Type = CounterpartyTypeOther, Counterparty = Some clientKey\<rparr>,
                  Data = oopsPayload\<rparr> (Inr mockSignature)
       | (None, s) \<Rightarrow> False)"
proof -
  have t: "\<not> allowUnauthenticated strictTransport" by (simp add: strictTransport_def)
  have a: "IsAuthenticated (sessionAfterHandshake True)"
    by (simp add: sessionAfterHandshake_def)
  have l: "lastWrite (fprintHandler None) = Some ''Pong!''"
    "lastWrite (bufferHandler None) = Some ''Pong!''"
    by (simp_all add: fprintHandler_def bufferHandler_def)
  from ping_Handler_steps[where ?next = fprintHandler and payload = pongPayload
      and d = mockDecode, OF t a refl fprintHandler_recorder(1)]
  have f: "case Handler (mockExternals mockDecode) strictTransport fprintHandler newResponseWriter
              pingRequest (worldAfterHandshake True) of
         (Some r, s) \<Rightarrow>
           wBody (ResponseWriter r) = ''AAAC ''
           \<and> last (calls s) =
               CalledCreateSignature
                 \<lparr>ProtocolID = DefaultAuthProtocol, KeyID = ''AAAC QUJD'',
                  EncCounterparty =
                    \<lparr>Type = CounterpartyTypeOther, Counterparty = Some clientKey\<rparr>,
                  Data = pongPayload\<rparr> (Inr mockSignature)
       | (None, s) \<Rightarrow> False"
    by (auto simp: fprintHandler_recorder pong_payload)
  from ping_Handler_steps[where ?next = bufferHandler and payload = oopsPayload
      and d = mockDecode, OF t a refl bufferHandler_recorder(1)]
  have b: "case Handler (mockExternals mockDecode) strictTransport bufferHandler newResponseWriter
              pingRequest (worldAfterHandshake True) of
         (Some r, s) \<Rightarrow>
           wBody (ResponseWriter r) = ''Oops!''
           \<and> last (calls s) =
               CalledCreateSignature
                 \<lparr>ProtocolID = DefaultAuthProtocol, KeyID = ''AAAC QUJD'',
                  EncCounterparty =
                    \<lparr>Type = CounterpartyTypeOther, Counterparty = Some clientKey\<rparr>,
                  Data = oopsPayload\<rparr> (Inr mockSignature)
       | (None, s) \<Rightarrow> False"
    by (auto simp: bufferHandler_recorder oops_payload)
  from l f b show ?thesis by simp
qed

subsection \<open>How the handlers change the stored sessions\<close>




























subsection \<open>The handshake and the certificates, evaluated on the mock\<close>






subsection \<open>Authenticated sessions: the invariant\<close>





end
